theory Spec2Isabelle
  imports Main "HOL-Library.Sublist" "HOL-Library.AList"
begin

section \<open>Python strings\<close>

text \<open>
  Strings are byte strings (\<open>char list\<close>); a non-ASCII character is the sequence of
  its UTF-8 bytes. The functions below are the \<open>str\<close> methods that \<open>main.py\<close> calls.
\<close>

definition startswith :: "string \<Rightarrow> string \<Rightarrow> bool" where
  "startswith s p = prefix p s"

definition endswith :: "string \<Rightarrow> string \<Rightarrow> bool" where
  "endswith s p = suffix p s"

text \<open>\<open>s.lstrip(cs)\<close> and \<open>s.strip(cs)\<close>: drop the leading (and trailing) characters in \<open>cs\<close>.\<close>

definition lstrip :: "string \<Rightarrow> string \<Rightarrow> string" where
  "lstrip cs s = dropWhile (\<lambda>c. c \<in> set cs) s"

definition strip :: "string \<Rightarrow> string \<Rightarrow> string" where
  "strip cs s = rev (lstrip cs (rev (lstrip cs s)))"

text \<open>\<open>s.split(c)\<close> for a one-character separator: never empty, \<open>''''.split(c) = ['''']\<close>.\<close>

fun split_on :: "char \<Rightarrow> string \<Rightarrow> string list" where
  "split_on c [] = [[]]"
| "split_on c (x # xs) =
     (if x = c then [] # split_on c xs
      else (case split_on c xs of [] \<Rightarrow> [[x]] | p # ps \<Rightarrow> (x # p) # ps))"

text \<open>\<open>s.partition(c)\<close>: the text before the first \<open>c\<close>, whether \<open>c\<close> occurs, the text after it.\<close>

definition partition_on :: "char \<Rightarrow> string \<Rightarrow> string \<times> bool \<times> string" where
  "partition_on c s =
     (takeWhile (\<lambda>x. x \<noteq> c) s, c \<in> set s, drop 1 (dropWhile (\<lambda>x. x \<noteq> c) s))"

text \<open>\<open>s.rpartition(c)\<close>: split at the last \<open>c\<close>; without one, everything is in the third part.\<close>

definition rpartition_on :: "char \<Rightarrow> string \<Rightarrow> string \<times> bool \<times> string" where
  "rpartition_on c s =
     (rev (drop 1 (dropWhile (\<lambda>x. x \<noteq> c) (rev s))), c \<in> set s,
      rev (takeWhile (\<lambda>x. x \<noteq> c) (rev s)))"

text \<open>\<open>s.lower()\<close> on ASCII letters; other bytes are kept.\<close>

definition lower_char :: "char \<Rightarrow> char" where
  "lower_char c =
     (let n = (of_char c :: nat) in if 65 \<le> n \<and> n \<le> 90 then char_of (n + 32) else c)"

definition lower :: "string \<Rightarrow> string" where
  "lower s = map lower_char s"

text \<open>
  \<open>s.replace(old, new)\<close>: every occurrence of \<open>old\<close>, left to right, without overlap.
  The source only replaces non-empty constants; for an empty \<open>old\<close> the model returns \<open>s\<close>.
\<close>

function replace :: "string \<Rightarrow> string \<Rightarrow> string \<Rightarrow> string" where
  "replace old new s =
     (if old = [] then s
      else if prefix old s then new @ replace old new (drop (length old) s)
      else (case s of [] \<Rightarrow> [] | x # xs \<Rightarrow> x # replace old new xs))"
  by pat_completeness auto
termination
  by (relation "measure (\<lambda>(old, new, s). length s)") (auto simp: prefix_def)

declare replace.simps [simp del]

text \<open>\<open>str(i)\<close> of a Python int, as an f-string prints it: decimal, with \<open>-\<close> when negative.\<close>

definition digit_char :: "nat \<Rightarrow> char" where
  "digit_char d = char_of (48 + d)"

fun digits :: "nat \<Rightarrow> string" where
  "digits n = (if n < 10 then [digit_char n] else digits (n div 10) @ [digit_char (n mod 10)])"

declare digits.simps [simp del]

definition str_int :: "int \<Rightarrow> string" where
  "str_int i = (if i < 0 then CHR ''-'' # digits (nat (- i)) else digits (nat i))"

text \<open>The number a decimal numeral denotes: the inverse of \<open>digits\<close>.\<close>

definition undigits :: "string \<Rightarrow> nat" where
  "undigits s = foldl (\<lambda>acc c. 10 * acc + (of_char c - 48)) 0 s"

text \<open>
  A Python float is passed through the pipeline untouched and only ever printed into a
  file name. It is represented by the text \<open>str\<close> prints for it (\<open>0.5\<close>, \<open>0.33\<close>):
  \<open>repr\<close> round-trips, so two different floats have different texts.
\<close>

type_synonym pyfloat = string

section \<open>\<open>os.path\<close> on POSIX\<close>

definition path_join :: "string \<Rightarrow> string \<Rightarrow> string" where
  "path_join a b =
     (if startswith b ''/'' then b
      else if a = [] \<or> endswith a ''/'' then a @ b
      else a @ ''/'' @ b)"

definition basename :: "string \<Rightarrow> string" where
  "basename p = rev (takeWhile (\<lambda>c. c \<noteq> CHR ''/'') (rev p))"

text \<open>
  \<open>os.path.splitext\<close>: the extension starts at the last dot of the last path component,
  unless only dots precede it there.
\<close>

definition splitext :: "string \<Rightarrow> string \<times> string" where
  "splitext p =
     (let name = basename p;
          dir = take (length p - length name) p;
          ext = CHR ''.'' # rev (takeWhile (\<lambda>c. c \<noteq> CHR ''.'') (rev name));
          stem = take (length name - length ext) name
      in if CHR ''.'' \<in> set name \<and> \<not> set stem \<subseteq> {CHR ''.''} then (dir @ stem, ext)
         else (p, []))"

section \<open>Exceptions\<close>

text \<open>
  An exception is its class and its message. An \<open>OSError\<close> is its class and the paths
  it names; its message (\<open>[Errno 2] No such file or directory: '/a/b'\<close> and the like) is
  read where it is asked for. \<open>raise_exception\<close> raises \<open>gr.Error\<close> in the web UI and
  \<open>Exception\<close> otherwise.
\<close>

datatype exn_class = PyException | GrError | ValueError | TypeError | IndexError | EngineError

datatype os_error =
    FileNotFoundError | FileExistsError | NotADirectoryError | IsADirectoryError
  | PermissionError

datatype error = Raise exn_class string | RaiseOS os_error "string list"

definition raise_exception :: "string \<Rightarrow> bool \<Rightarrow> error" where
  "raise_exception error_msg webui = Raise (if webui then GrError else PyException) error_msg"

section \<open>\<open>urllib.parse\<close>\<close>

text \<open>
  What the standard library takes from tables of its own is a parameter: \<open>str.lower\<close> on
  text that is not ASCII; \<open>unicodedata.normalize('NFKC', s)\<close>;
  \<open>bytes.decode('utf-8', 'replace')\<close> on bytes that are not ASCII; and
  \<open>ipaddress.ip_address\<close>, which raises \<open>ValueError\<close> with a message or gives an IPv4 or
  an IPv6 address.
\<close>

datatype ip = NotAnAddress string | IPv4Address | IPv6Address

record pylib =
  unicode_lower :: "string \<Rightarrow> string"
  nfkc :: "string \<Rightarrow> string"
  utf8_replace :: "string \<Rightarrow> string"
  ip_address :: "string \<Rightarrow> ip"

definition isascii :: "string \<Rightarrow> bool" where
  "isascii s = list_all (\<lambda>c. (of_char c :: nat) < 128) s"

definition str_lower :: "'a pylib_scheme \<Rightarrow> string \<Rightarrow> string" where
  "str_lower w s = (if isascii s then lower s else unicode_lower w s)"

definition decode :: "'a pylib_scheme \<Rightarrow> string \<Rightarrow> string" where
  "decode w bs = (if isascii bs then bs else utf8_replace w bs)"

text \<open>
  \<open>urlparse\<close> and \<open>parse_qs\<close> are the standard library's (CPython 3.11). \<open>urlsplit\<close>
  strips leading control characters and spaces, deletes tab, CR and LF, splits off a
  scheme and a network location after \<open>//\<close>, checks the brackets of the network
  location and the host between them, splits off a fragment after \<open>#\<close> and a query after
  \<open>?\<close>, and checks the network location under NFKC normalization. Each failed check is
  a \<open>ValueError\<close>.
\<close>

record url =
  url_scheme :: string
  url_netloc :: string
  url_path :: string
  url_params :: string
  url_query :: string
  url_fragment :: string

definition scheme_chars :: string where
  "scheme_chars = ''abcdefghijklmnopqrstuvwxyzABCDEFGHIJKLMNOPQRSTUVWXYZ0123456789+-.''"

definition is_ascii_alpha :: "char \<Rightarrow> bool" where
  "is_ascii_alpha c =
     (let n = (of_char c :: nat) in (65 \<le> n \<and> n \<le> 90) \<or> (97 \<le> n \<and> n \<le> 122))"

definition split_scheme :: "string \<Rightarrow> string \<times> string" where
  "split_scheme u =
     (let s = takeWhile (\<lambda>c. c \<noteq> CHR '':'') u
      in if CHR '':'' \<in> set u \<and> s \<noteq> [] \<and> is_ascii_alpha (hd s)
            \<and> list_all (\<lambda>c. c \<in> set scheme_chars) s
         then (lower s, drop (length s + 1) u)
         else ([], u))"

definition split_netloc :: "string \<Rightarrow> string \<times> string" where
  "split_netloc u =
     (if take 2 u = ''//''
      then (let r = drop 2 u; n = takeWhile (\<lambda>c. c \<notin> set ''/?#'') r
            in (n, drop (length n) r))
      else ([], u))"

definition uses_params :: "string list" where
  "uses_params = [[], ''ftp'', ''hdl'', ''prospero'', ''http'', ''imap'', ''https'', ''shttp'',
     ''rtsp'', ''rtspu'', ''sip'', ''sips'', ''mms'', ''sftp'', ''tel'']"

text \<open>\<open>_splitparams\<close>: the parameters after the first \<open>;\<close> of the last path segment.\<close>

definition splitparams :: "string \<Rightarrow> string \<times> string" where
  "splitparams u =
     (let name = basename u; dir = take (length u - length name) u
      in if CHR '';'' \<in> set name
         then (dir @ takeWhile (\<lambda>c. c \<noteq> CHR '';'') name,
               drop 1 (dropWhile (\<lambda>c. c \<noteq> CHR '';'') name))
         else (u, []))"

text \<open>
  \<open>_check_bracketed_host\<close>: a host that starts with \<open>v\<close> has to match
  \<open>v[a-fA-F0-9]+\..+\<close>; any other has to be an IPv6 address.
\<close>

definition is_hex :: "char \<Rightarrow> bool" where
  "is_hex c = (c \<in> set ''0123456789abcdefABCDEF'')"

definition ipvfuture :: "string \<Rightarrow> bool" where
  "ipvfuture h =
     (let ds = takeWhile is_hex (drop 1 h); r = drop (1 + length ds) h
      in take 1 h = ''v'' \<and> ds \<noteq> [] \<and> take 1 r = ''.'' \<and> 2 \<le> length r)"

definition check_bracketed_host :: "'a pylib_scheme \<Rightarrow> string \<Rightarrow> error option" where
  "check_bracketed_host w h =
     (if startswith h ''v''
      then (if ipvfuture h then None else Some (Raise ValueError ''IPvFuture address is invalid''))
      else (case ip_address w h of
              NotAnAddress m \<Rightarrow> Some (Raise ValueError m)
            | IPv4Address \<Rightarrow> Some (Raise ValueError ''An IPv4 address cannot be in brackets'')
            | IPv6Address \<Rightarrow> None))"

text \<open>
  \<open>_checknetloc\<close>: a network location that is not ASCII must not gain one of \<open>/?#@:\<close>
  by normalization.
\<close>

definition checknetloc :: "'a pylib_scheme \<Rightarrow> string \<Rightarrow> error option" where
  "checknetloc w netloc =
     (if netloc = [] \<or> isascii netloc then None
      else
        (let n = filter (\<lambda>c. c \<notin> set ''@:#?'') netloc;
             netloc2 = nfkc w n
         in if n = netloc2 then None
            else if list_ex (\<lambda>c. c \<in> set netloc2) ''/?#@:''
            then Some (Raise ValueError
                         (''netloc '' @ [CHR 0x27] @ netloc @ [CHR 0x27]
                            @ '' contains invalid characters under NFKC normalization''))
            else None))"

definition urlparse :: "'a pylib_scheme \<Rightarrow> string \<Rightarrow> error + url" where
  "urlparse w u0 =
     (let u1 = dropWhile (\<lambda>c. (of_char c :: nat) \<le> 32) u0;
          u2 = filter (\<lambda>c. c \<notin> {CHR 0x09, CHR 0x0A, CHR 0x0D}) u1;
          (sch, u3) = split_scheme u2;
          (loc, u4) = split_netloc u3
      in if (CHR ''['' \<in> set loc) \<noteq> (CHR '']'' \<in> set loc)
         then Inl (Raise ValueError ''Invalid IPv6 URL'')
         else
           (case (if CHR ''['' \<in> set loc
                  then check_bracketed_host w
                         (fst (partition_on CHR '']'' (snd (snd (partition_on CHR ''['' loc)))))
                  else None) of
              Some e \<Rightarrow> Inl e
            | None \<Rightarrow>
               (let (u5, has_frag, frag) = partition_on CHR ''#'' u4;
                    (u6, has_query, qry) = partition_on CHR ''?'' u5
                in case checknetloc w loc of
                     Some e \<Rightarrow> Inl e
                   | None \<Rightarrow>
                      (let (pth, prm) = (if sch \<in> set uses_params \<and> CHR '';'' \<in> set u6
                                         then splitparams u6 else (u6, []))
                       in Inr \<lparr> url_scheme = sch, url_netloc = loc, url_path = pth,
                                url_params = prm, url_query = qry, url_fragment = frag \<rparr>))))"

text \<open>The \<open>hostname\<close> property: no user info, no port, lower case; \<open>None\<close> when empty.\<close>

definition hostname :: "'a pylib_scheme \<Rightarrow> url \<Rightarrow> string option" where
  "hostname w u =
     (let (_, _, hostinfo) = rpartition_on CHR ''@'' (url_netloc u);
          (_, have_open_br, bracketed) = partition_on CHR ''['' hostinfo;
          h = (if have_open_br then fst (partition_on CHR '']'' bracketed)
               else fst (partition_on CHR '':'' hostinfo));
          (h1, percent, zone) = partition_on CHR ''%'' h
      in if h = [] then None
         else Some (str_lower w h1 @ (if percent then ''%'' else []) @ zone))"

definition hexval :: "char \<Rightarrow> nat option" where
  "hexval c =
     (let n = (of_char c :: nat)
      in if 48 \<le> n \<and> n \<le> 57 then Some (n - 48)
         else if 65 \<le> n \<and> n \<le> 70 then Some (n - 55)
         else if 97 \<le> n \<and> n \<le> 102 then Some (n - 87)
         else None)"

text \<open>
  \<open>unquote_to_bytes\<close>: a \<open>%\<close> followed by two hexadecimal digits is the byte they
  denote; any other \<open>%\<close> stays.
\<close>

fun unquote_to_bytes :: "string \<Rightarrow> string" where
  "unquote_to_bytes (c # h # l # rest) =
     (if c = CHR ''%''
      then (case (hexval h, hexval l) of
              (Some x, Some y) \<Rightarrow> char_of (16 * x + y) # unquote_to_bytes rest
            | _ \<Rightarrow> c # unquote_to_bytes (h # l # rest))
      else c # unquote_to_bytes (h # l # rest))"
| "unquote_to_bytes s = s"

text \<open>The maximal runs of characters that agree on \<open>P\<close>.\<close>

fun runs :: "('a \<Rightarrow> bool) \<Rightarrow> 'a list \<Rightarrow> 'a list list" where
  "runs P [] = []"
| "runs P (x # xs) =
     (case runs P xs of
        (y # ys) # rest \<Rightarrow> if P x = P y then (x # y # ys) # rest else [x] # (y # ys) # rest
      | _ \<Rightarrow> [[x]])"

text \<open>
  \<open>unquote\<close>: without a \<open>%\<close> the string is returned as it is; otherwise each maximal
  ASCII run is unquoted to bytes, and the bytes decoded as UTF-8 with malformed
  sequences replaced.
\<close>

definition unquote :: "'a pylib_scheme \<Rightarrow> string \<Rightarrow> string" where
  "unquote w s =
     (if CHR ''%'' \<notin> set s then s
      else concat (map (\<lambda>bit. if isascii bit then decode w (unquote_to_bytes bit) else bit)
                     (runs (\<lambda>c. (of_char c :: nat) < 128) s)))"

text \<open>
  \<open>parse_qsl\<close> with its defaults: fields are separated by \<open>&\<close>; a field without \<open>=\<close> or
  with an empty value is dropped; \<open>+\<close> is a space.
\<close>

definition parse_qsl :: "'a pylib_scheme \<Rightarrow> string \<Rightarrow> (string \<times> string) list" where
  "parse_qsl w qs =
     concat (map (\<lambda>name_value.
        let (n, has_eq, v) = partition_on CHR ''='' name_value
        in if name_value = [] \<or> \<not> has_eq \<or> v = [] then []
           else [(unquote w (replace ''+'' '' '' n), unquote w (replace ''+'' '' '' v))])
       (split_on CHR ''&'' qs))"

text \<open>\<open>parse_qs\<close>: the dictionary from each name to the list of its values, in order.\<close>

definition parse_qs :: "'a pylib_scheme \<Rightarrow> string \<Rightarrow> string \<rightharpoonup> string list" where
  "parse_qs w qs k =
     (case map snd (filter (\<lambda>(n, v). n = k) (parse_qsl w qs)) of
        [] \<Rightarrow> None
      | vs \<Rightarrow> Some vs)"

section \<open>\<open>get_youtube_video_id\<close>\<close>

text \<open>\<open>xs[i]\<close>, with its \<open>IndexError\<close>.\<close>

definition index :: "'a list \<Rightarrow> nat \<Rightarrow> error + 'a" where
  "index xs i =
     (if i < length xs then Inr (xs ! i) else Inl (Raise IndexError ''list index out of range''))"

text \<open>
  The result is \<open>None\<close> or the identifier; an exception of \<open>urlparse\<close> passes through.
  \<open>with suppress(KeyError)\<close> around \<open>parse_qs(...)['list'][0]\<close>: without a \<open>list\<close> field
  the function goes on to the path.
\<close>

definition get_youtube_video_id ::
  "'a pylib_scheme \<Rightarrow> string \<Rightarrow> bool \<Rightarrow> error + string option" where
  "get_youtube_video_id w u ignore_playlist =
     (case urlparse w u of
        Inl e \<Rightarrow> Inl e
      | Inr parsed_url \<Rightarrow>
          (let host = (case hostname w parsed_url of None \<Rightarrow> [] | Some h \<Rightarrow> h);
               pth = url_path parsed_url
           in if str_lower w host = ''youtu.be'' then Inr (Some (lstrip ''/'' pth))
              else if str_lower w host \<in> {''www.youtube.com'', ''youtube.com'', ''music.youtube.com''}
              then
                (case (if ignore_playlist then None
                       else parse_qs w (url_query parsed_url) ''list'') of
                   Some (l # _) \<Rightarrow> Inr (Some l)
                 | _ \<Rightarrow>
                    if pth = ''/watch''
                    then (case parse_qs w (url_query parsed_url) ''v'' of
                            Some (v # _) \<Rightarrow> Inr (Some v)
                          | _ \<Rightarrow> Inr None)
                    else if startswith pth ''/watch/''
                    then map_sum id Some (index (split_on CHR ''/'' pth) 1)
                    else if startswith pth ''/embed/''
                    then map_sum id Some (index (split_on CHR ''/'' pth) 2)
                    else if startswith pth ''/v/''
                    then map_sum id Some (index (split_on CHR ''/'' pth) 2)
                    else Inr None)
              else Inr None))"

section \<open>The parameters of \<open>song_cover_pipeline\<close>\<close>

record args =
  song_input :: string
  voice_model :: string
  pitch_change :: int
  keep_files :: bool
  is_webui :: bool
  main_gain :: int
  backup_gain :: int
  inst_gain :: int
  index_rate :: pyfloat
  filter_radius :: int
  rms_mix_rate :: pyfloat
  f0_method :: string
  crepe_hop_length :: int
  protect :: pyfloat
  pitch_change_all :: int
  reverb_rm_size :: pyfloat
  reverb_wet :: pyfloat
  reverb_dry :: pyfloat
  reverb_damping :: pyfloat
  output_format :: string

section \<open>Artifact paths (\<open>song_cover_pipeline\<close>, lines 364 to 379)\<close>

record artifact_paths =
  ai_vocals_path :: string
  ai_backing_path :: string
  ai_cover_path :: string
  ai_cover_backing_path :: string

text \<open>
  \<open>pitch_change += pitch_change_all\<close> comes first: the pitch printed into the names, and
  later given to the conversion, is the sum.
\<close>

definition total_pitch :: "args \<Rightarrow> int" where
  "total_pitch a = pitch_change a + pitch_change_all a"

definition algo_suffix :: "args \<Rightarrow> string" where
  "algo_suffix a =
     (if f0_method a = ''mangio-crepe'' then ''_'' @ str_int (crepe_hop_length a) else [])"

text \<open>
  The two conversion outputs have the same f-string, with \<open>lead\<close> or \<open>backing\<close> as the
  role after the song's name.
\<close>

definition conv_name :: "string \<Rightarrow> string \<Rightarrow> args \<Rightarrow> string" where
  "conv_name base_song_name role a =
     base_song_name @ ''_'' @ role @ ''_'' @ voice_model a
       @ ''_p'' @ str_int (total_pitch a)
       @ ''_i'' @ index_rate a
       @ ''_fr'' @ str_int (filter_radius a)
       @ ''_rms'' @ rms_mix_rate a
       @ ''_pro'' @ protect a
       @ ''_'' @ f0_method a @ algo_suffix a @ ''.wav''"

definition resolve_paths :: "string \<Rightarrow> string \<Rightarrow> args \<Rightarrow> artifact_paths" where
  "resolve_paths song_dir orig_song_path a =
     (let base_song_name = fst (splitext (basename orig_song_path))
      in \<lparr> ai_vocals_path = path_join song_dir (conv_name base_song_name ''lead'' a),
           ai_backing_path = path_join song_dir (conv_name base_song_name ''backing'' a),
           ai_cover_path =
             path_join song_dir
               (base_song_name @ '' ('' @ voice_model a @ '' Ver).'' @ output_format a),
           ai_cover_backing_path =
             path_join song_dir
               (base_song_name @ '' ('' @ voice_model a @ '' Ver With Backing).''
                  @ output_format a) \<rparr>)"

section \<open>The file system, the calls made, and what the program does not decide\<close>

text \<open>
  The file system is the list of the paths that exist, each a directory or a file with
  its bytes; a path is its spelling. The order of the list is the order in which
  \<open>os.listdir\<close> enumerates.
\<close>

datatype node = Dir | File string

type_synonym filesys = "(string \<times> node) list"

definition path_exists :: "filesys \<Rightarrow> string \<Rightarrow> bool" where
  "path_exists fs p = (map_of fs p \<noteq> None)"

definition is_file :: "filesys \<Rightarrow> string \<Rightarrow> bool" where
  "is_file fs p = (case map_of fs p of Some (File _) \<Rightarrow> True | _ \<Rightarrow> False)"

text \<open>The name of \<open>p\<close> inside the directory \<open>d\<close>, when \<open>p\<close> is directly in \<open>d\<close>.\<close>

definition child_name :: "string \<Rightarrow> string \<Rightarrow> string option" where
  "child_name d p =
     (let pre = (if endswith d ''/'' then d else d @ ''/'');
          name = drop (length pre) p
      in if prefix pre p \<and> name \<noteq> [] \<and> CHR ''/'' \<notin> set name then Some name else None)"

text \<open>Every call to a library outside the program is recorded, with its arguments.\<close>

datatype event =
    YtDownload string
  | LoadAudio string
  | Ffmpeg "string list"
  | Separate string string string
  | RvcInfer string string string string int string pyfloat int pyfloat pyfloat int
  | Effects string string pyfloat pyfloat pyfloat pyfloat
  | PitchShift string string int
  | Mix "string list" string int int int string

record state =
  files :: filesys
  trace :: "event list"

text \<open>
  What the program does not decide is a parameter: the installation directory
  \<open>BASE_DIR\<close>; the file name \<open>yt_dlp\<close> prepares for a link (\<open>None\<close> when it has no result);
  whether the audio at a path is mono; the names of the two files the separator writes
  for a model and an input; whether a call to a library raises, and with which message;
  the message of a library that cannot read a file; the files \<open>ffmpeg\<close> reads and writes
  for an argument list; the bytes a library writes to a path; the paths \<open>os.remove\<close> is
  denied; what \<open>str\<close> gives for a \<open>gr.Error\<close> with a message and for an \<open>OSError\<close>
  with its paths; the BLAKE2b digest of a byte string, in hexadecimal. These come on top
  of the parameters of the standard library above.
\<close>

record world = pylib +
  base_dir :: string
  yt_prepared :: "string \<Rightarrow> string option"
  mono :: "string \<Rightarrow> bool"
  stems :: "string \<Rightarrow> string \<Rightarrow> string list"
  fails :: "event \<Rightarrow> string option"
  unreadable :: "event \<Rightarrow> string \<Rightarrow> string"
  ffmpeg_files :: "string list \<Rightarrow> string list \<times> string list"
  written :: "string \<Rightarrow> string"
  denied :: "string \<Rightarrow> bool"
  gr_error_str :: "string \<Rightarrow> string"
  os_error_str :: "os_error \<Rightarrow> string list \<Rightarrow> string"
  blake2b_hexdigest :: "string \<Rightarrow> string"

definition output_dir :: "world \<Rightarrow> string" where
  "output_dir w = path_join (base_dir w) ''song_output''"

definition rvc_models_dir :: "world \<Rightarrow> string" where
  "rvc_models_dir w = path_join (base_dir w) ''rvc_models''"

subsection \<open>Running: a result or an exception, and the state after\<close>

type_synonym 'a run = "state \<Rightarrow> (error + 'a) \<times> state"

definition ret :: "'a \<Rightarrow> 'a run" where
  "ret x s = (Inr x, s)"

definition raise :: "error \<Rightarrow> 'a run" where
  "raise e s = (Inl e, s)"

definition lift :: "error + 'a \<Rightarrow> 'a run" where
  "lift r s = (r, s)"

definition bind :: "'a run \<Rightarrow> ('a \<Rightarrow> 'b run) \<Rightarrow> 'b run" where
  "bind m f s = (case m s of (Inl e, s') \<Rightarrow> (Inl e, s') | (Inr x, s') \<Rightarrow> f x s')"

subsection \<open>\<open>os\<close>\<close>

definition os_path_exists :: "string \<Rightarrow> bool run" where
  "os_path_exists p s = (Inr (path_exists (files s) p), s)"

definition os_makedirs :: "string \<Rightarrow> unit run" where
  "os_makedirs p s =
     (if path_exists (files s) p then (Inl (RaiseOS FileExistsError [p]), s)
      else (Inr (), s\<lparr>files := AList.update p Dir (files s)\<rparr>))"

definition os_listdir :: "string \<Rightarrow> string list run" where
  "os_listdir d s =
     (case map_of (files s) d of
        None \<Rightarrow> (Inl (RaiseOS FileNotFoundError [d]), s)
      | Some (File _) \<Rightarrow> (Inl (RaiseOS NotADirectoryError [d]), s)
      | Some Dir \<Rightarrow> (Inr (List.map_filter (child_name d) (map fst (files s))), s))"

definition os_remove :: "world \<Rightarrow> string \<Rightarrow> unit run" where
  "os_remove w p s =
     (case map_of (files s) p of
        None \<Rightarrow> (Inl (RaiseOS FileNotFoundError [p]), s)
      | Some Dir \<Rightarrow> (Inl (RaiseOS IsADirectoryError [p]), s)
      | Some (File _) \<Rightarrow>
          if denied w p then (Inl (RaiseOS PermissionError [p]), s)
          else (Inr (), s\<lparr>files := AList.delete p (files s)\<rparr>))"

definition os_rename :: "string \<Rightarrow> string \<Rightarrow> unit run" where
  "os_rename src dst s =
     (case map_of (files s) src of
        None \<Rightarrow> (Inl (RaiseOS FileNotFoundError [src, dst]), s)
      | Some n \<Rightarrow>
          if map_of (files s) dst = Some Dir \<and> n \<noteq> Dir then (Inl (RaiseOS IsADirectoryError [src, dst]), s)
          else (Inr (), s\<lparr>files := AList.update dst n (AList.delete src (files s))\<rparr>))"

subsection \<open>Calls to the audio libraries\<close>

text \<open>
  Modelled from the spec: the fetcher, the separation engine, the voice conversion (the
  module \<open>rvc\<close> of the repository, which is not among the sources), the effects, the pitch
  shifter and the mixer, by their contracts in section 6. A call is recorded; it raises
  when one of the files it reads is missing, or when the library fails; otherwise it
  writes its output files, and nothing else.
\<close>

definition engine :: "world \<Rightarrow> event \<Rightarrow> string list \<Rightarrow> string list \<Rightarrow> unit run" where
  "engine w ev inputs outputs s =
     (let s1 = s\<lparr>trace := trace s @ [ev]\<rparr>
      in case filter (\<lambda>p. \<not> is_file (files s1) p) inputs of
           p # _ \<Rightarrow> (Inl (Raise EngineError (unreadable w ev p)), s1)
         | [] \<Rightarrow>
            (case fails w ev of
               Some m \<Rightarrow> (Inl (Raise EngineError m), s1)
             | None \<Rightarrow>
                (Inr (),
                 s1\<lparr>files :=
                      foldl (\<lambda>fs p. AList.update p (File (written w p)) fs) (files s1) outputs\<rparr>)))"

section \<open>The stages of \<open>main.py\<close>\<close>

subsection \<open>\<open>yt_download\<close>\<close>

definition yt_download :: "world \<Rightarrow> string \<Rightarrow> string option run" where
  "yt_download w link =
     (case yt_prepared w link of
        None \<Rightarrow> bind (engine w (YtDownload link) [] []) (\<lambda>_. ret None)
      | Some prepared \<Rightarrow>
          (let download_path = replace ''.m4a'' ''.mp3'' (replace ''.webm'' ''.mp3'' prepared)
           in bind (engine w (YtDownload link) [] [download_path])
                (\<lambda>_. ret (Some download_path))))"

subsection \<open>\<open>get_rvc_model\<close>\<close>

text \<open>The loop keeps the last \<open>.pth\<close> and the last \<open>.index\<close> file of the listing.\<close>

definition rvc_scan :: "string option \<times> string option \<Rightarrow> string \<Rightarrow> string option \<times> string option"
  where
  "rvc_scan acc file =
     (let ext = snd (splitext file);
          acc1 = (if ext = ''.pth'' then (Some file, snd acc) else acc)
      in if ext = ''.index'' then (fst acc1, Some file) else acc1)"

definition get_rvc_model :: "world \<Rightarrow> string \<Rightarrow> bool \<Rightarrow> (string \<times> string) run" where
  "get_rvc_model w model webui =
     (let model_dir = path_join (rvc_models_dir w) model
      in bind (os_path_exists model_dir) (\<lambda>ex.
           if \<not> ex
           then raise (raise_exception (''Model directory '' @ model_dir @ '' does not exist.'') webui)
           else
             bind (os_listdir model_dir) (\<lambda>listing.
               case foldl rvc_scan (None, None) listing of
                 (None, _) \<Rightarrow>
                   raise (raise_exception (''No model file exists in '' @ model_dir @ ''.'') webui)
               | (Some rvc_model_filename, rvc_index_filename) \<Rightarrow>
                   ret (path_join model_dir rvc_model_filename,
                        (case rvc_index_filename of
                           None \<Rightarrow> []
                         | Some f \<Rightarrow> path_join model_dir f)))))"

subsection \<open>\<open>separation_uvr\<close>\<close>

definition separate :: "world \<Rightarrow> string \<Rightarrow> string \<Rightarrow> string \<Rightarrow> string list run" where
  "separate w model_filename filename output =
     bind (engine w (Separate model_filename filename output) [filename]
             (map (path_join output) (stems w model_filename filename)))
       (\<lambda>_. ret (stems w model_filename filename))"

definition separation_uvr ::
  "world \<Rightarrow> string \<Rightarrow> string \<Rightarrow> (string \<times> string \<times> string \<times> string) run" where
  "separation_uvr w filename output =
     (let base_name = fst (splitext (basename filename));
          instrumental_path = path_join output (base_name @ ''_Instrumental.wav'');
          initial_vocals = path_join output (base_name @ ''_Vocals.wav'');
          vocals_no_reverb = path_join output (base_name @ ''_Vocals (No Reverb).wav'');
          vocals_reverb = path_join output (base_name @ ''_Vocals (Reverb).wav'');
          main_vocals_dereverb = path_join output (base_name @ ''_Vocals_Main_DeReverb.wav'');
          backup_vocals = path_join output (base_name @ ''_Vocals_Backup.wav'')
      in
      bind (separate w ''model_bs_roformer_ep_317_sdr_12.9755.ckpt'' filename output)
        (\<lambda>voc_inst.
      bind (lift (index voc_inst 0)) (\<lambda>o0.
      bind (os_rename (path_join output o0) instrumental_path) (\<lambda>_.
      bind (lift (index voc_inst 1)) (\<lambda>o1.
      bind (os_rename (path_join output o1) initial_vocals) (\<lambda>_.
      bind (separate w ''UVR-DeEcho-DeReverb.pth'' initial_vocals output) (\<lambda>voc_no_reverb.
      bind (lift (index voc_no_reverb 0)) (\<lambda>o2.
      bind (os_rename (path_join output o2) vocals_no_reverb) (\<lambda>_.
      bind (lift (index voc_no_reverb 1)) (\<lambda>o3.
      bind (os_rename (path_join output o3) vocals_reverb) (\<lambda>_.
      bind (separate w ''mel_band_roformer_karaoke_aufr33_viperx_sdr_10.1956.ckpt''
              vocals_no_reverb output) (\<lambda>voc_split.
      bind (lift (index voc_split 0)) (\<lambda>o4.
      bind (os_rename (path_join output o4) backup_vocals) (\<lambda>_.
      bind (lift (index voc_split 1)) (\<lambda>o5.
      bind (os_rename (path_join output o5) main_vocals_dereverb) (\<lambda>_.
      bind (os_path_exists vocals_reverb) (\<lambda>ex.
      bind (if ex then os_remove w vocals_reverb else ret ()) (\<lambda>_.
      ret (vocals_no_reverb, instrumental_path, main_vocals_dereverb, backup_vocals)
      ))))))))))))))))))"

subsection \<open>\<open>get_audio_paths\<close>\<close>

type_synonym found_paths = "string option \<times> string option \<times> string option \<times> string option"

text \<open>
  One turn of the loop over the listing. The four results are, in this order,
  \<open>orig_song_path\<close>, \<open>instrumentals_path\<close>, \<open>main_vocals_dereverb_path\<close> and
  \<open>backup_vocals_path\<close>.
\<close>

definition audio_scan :: "string \<Rightarrow> found_paths \<Rightarrow> string \<Rightarrow> found_paths" where
  "audio_scan song_dir acc file =
     (case acc of (orig, inst, main_dereverb, backup) \<Rightarrow>
        if endswith file ''_Instrumental.wav''
        then (Some (replace ''_Instrumental'' [] (path_join song_dir file)),
              Some (path_join song_dir file), main_dereverb, backup)
        else if endswith file ''_Vocals_Main_DeReverb.wav''
        then (orig, inst, Some (path_join song_dir file), backup)
        else if endswith file ''_Vocals_Backup.wav''
        then (orig, inst, main_dereverb, Some (path_join song_dir file))
        else acc)"

definition get_audio_paths :: "string \<Rightarrow> found_paths run" where
  "get_audio_paths song_dir =
     bind (os_listdir song_dir)
       (\<lambda>listing. ret (foldl (audio_scan song_dir) (None, None, None, None) listing))"

subsection \<open>\<open>shlex.split\<close>\<close>

text \<open>
  The tokenizer of \<open>shlex\<close> in POSIX mode, split at white space only and without
  comments, as \<open>shlex.split\<close> sets it up. The states are those of \<open>read_token\<close>: between
  tokens, in a word, in a quotation, and after a backslash in a word or in a double
  quotation. \<open>quoted\<close> says that the token had a quotation, so that it counts even when
  empty.
\<close>

datatype lexstate = Blank | Word | Quote char | EscapeWord | EscapeQuote char

fun emit :: "string \<Rightarrow> bool \<Rightarrow> error + string list \<Rightarrow> error + string list" where
  "emit token quoted (Inl e) = Inl e"
| "emit token quoted (Inr ts) = Inr (if token \<noteq> [] \<or> quoted then token # ts else ts)"

fun read_token :: "lexstate \<Rightarrow> string \<Rightarrow> bool \<Rightarrow> string \<Rightarrow> error + string list" where
  "read_token Blank token quoted [] = Inr []"
| "read_token Blank token quoted (c # cs) =
     (if c \<in> set [CHR '' '', CHR 0x09, CHR 0x0D, CHR 0x0A] then read_token Blank token quoted cs
      else if c = CHR 0x5C then read_token EscapeWord token quoted cs
      else if c = CHR 0x27 \<or> c = CHR 0x22 then read_token (Quote c) token quoted cs
      else read_token Word [c] quoted cs)"
| "read_token (Quote q) token quoted [] = Inl (Raise ValueError ''No closing quotation'')"
| "read_token (Quote q) token quoted (c # cs) =
     (if c = q then read_token Word token True cs
      else if c = CHR 0x5C \<and> q = CHR 0x22 then read_token (EscapeQuote q) token True cs
      else read_token (Quote q) (token @ [c]) True cs)"
| "read_token EscapeWord token quoted [] = Inl (Raise ValueError ''No escaped character'')"
| "read_token EscapeWord token quoted (c # cs) = read_token Word (token @ [c]) quoted cs"
| "read_token (EscapeQuote q) token quoted [] = Inl (Raise ValueError ''No escaped character'')"
| "read_token (EscapeQuote q) token quoted (c # cs) =
     read_token (Quote q)
       (token @ (if c \<noteq> CHR 0x5C \<and> c \<noteq> q then [CHR 0x5C] else []) @ [c]) quoted cs"
| "read_token Word token quoted [] = emit token quoted (Inr [])"
| "read_token Word token quoted (c # cs) =
     (if c \<in> set [CHR '' '', CHR 0x09, CHR 0x0D, CHR 0x0A]
      then emit token quoted (read_token Blank [] False cs)
      else if c = CHR 0x27 \<or> c = CHR 0x22 then read_token (Quote c) token quoted cs
      else if c = CHR 0x5C then read_token EscapeWord token quoted cs
      else read_token Word (token @ [c]) quoted cs)"

definition shlex_split :: "string \<Rightarrow> error + string list" where
  "shlex_split s = read_token Blank [] False s"

subsection \<open>\<open>convert_to_stereo\<close> and \<open>pitch_shift\<close>\<close>

text \<open>
  \<open>librosa.load(None)\<close>, after a download without a result, raises. \<open>ffmpeg\<close> is run on
  the arguments that \<open>shlex.split\<close> makes of the command line, which has the two paths
  between double quotes.
\<close>

definition convert_to_stereo :: "world \<Rightarrow> string option \<Rightarrow> string run" where
  "convert_to_stereo w audio_path =
     (case audio_path of
        None \<Rightarrow> raise (Raise TypeError ''Invalid file: None'')
      | Some p \<Rightarrow>
          bind (engine w (LoadAudio p) [p] []) (\<lambda>_.
            if mono w p
            then (let stereo_path = fst (splitext p) @ ''_stereo.wav''
                  in bind (lift (shlex_split
                                   (''ffmpeg -y -loglevel error -i '' @ [CHR 0x22] @ p
                                      @ [CHR 0x22] @ '' -ac 2 -f wav '' @ [CHR 0x22]
                                      @ stereo_path @ [CHR 0x22]))) (\<lambda>command.
                     bind (engine w (Ffmpeg command) (fst (ffmpeg_files w command))
                             (snd (ffmpeg_files w command)))
                       (\<lambda>_. ret stereo_path)))
            else ret p))"

definition pitch_shift :: "world \<Rightarrow> string \<Rightarrow> int \<Rightarrow> string run" where
  "pitch_shift w audio_path n =
     (let output_path = fst (splitext audio_path) @ ''_p'' @ str_int n @ ''.wav''
      in bind (os_path_exists output_path) (\<lambda>ex.
           bind (if \<not> ex then engine w (PitchShift audio_path output_path n) [audio_path]
                               [output_path]
                 else ret ())
             (\<lambda>_. ret output_path)))"

subsection \<open>\<open>get_hash\<close>\<close>

text \<open>
  The loop \<open>while chunk := f.read(8192): file_hash.update(chunk)\<close>. The handle is the
  bytes not read yet; the hash object is the bytes it was fed, and its \<open>hexdigest\<close> is
  the digest of those.
\<close>

function hash_loop :: "string \<Rightarrow> string \<Rightarrow> string" where
  "hash_loop f file_hash =
     (let chunk = take 8192 f
      in if chunk = [] then file_hash else hash_loop (drop 8192 f) (file_hash @ chunk))"
  by pat_completeness auto
termination
  by (relation "measure (\<lambda>(f, file_hash). length f)") auto

declare hash_loop.simps [simp del]

definition get_hash :: "world \<Rightarrow> string \<Rightarrow> string run" where
  "get_hash w filepath s =
     (case map_of (files s) filepath of
        None \<Rightarrow> (Inl (RaiseOS FileNotFoundError [filepath]), s)
      | Some Dir \<Rightarrow> (Inl (RaiseOS IsADirectoryError [filepath]), s)
      | Some (File content) \<Rightarrow>
          (Inr (take 11 (blake2b_hexdigest w (hash_loop content []))), s))"

subsection \<open>\<open>preprocess_song\<close>\<close>

datatype input_type = Yt | Local

text \<open>
  The third branch of the source (\<open>orig_song_path = None\<close> for any other input type) is
  never taken: the pipeline passes \<open>'yt'\<close> or \<open>'local'\<close>.
\<close>

definition preprocess_song ::
  "world \<Rightarrow> string \<Rightarrow> string \<Rightarrow> input_type \<Rightarrow>
     (string \<times> string \<times> string \<times> string \<times> string \<times> string) run" where
  "preprocess_song w song_in song_id itype =
     bind (case itype of
             Yt \<Rightarrow> (case split_on CHR ''&'' song_in of
                       song_link # _ \<Rightarrow> yt_download w song_link
                     | [] \<Rightarrow> raise (Raise IndexError ''list index out of range''))
           | Local \<Rightarrow> ret (Some song_in)) (\<lambda>orig_song_path.
     let song_output_dir = path_join (output_dir w) song_id in
     bind (os_path_exists song_output_dir) (\<lambda>ex.
     bind (if \<not> ex then os_makedirs song_output_dir else ret ()) (\<lambda>_.
     bind (convert_to_stereo w orig_song_path) (\<lambda>orig_song_path.
     bind (separation_uvr w orig_song_path song_output_dir)
       (\<lambda>(vocals_no_reverb, instrumental_path, main_vocals_dereverb, backup_vocals).
     ret (orig_song_path, vocals_no_reverb, instrumental_path, main_vocals_dereverb,
          backup_vocals, main_vocals_dereverb))))))"

subsection \<open>\<open>voice_change\<close>, \<open>add_audio_effects\<close>, \<open>combine_audio\<close>\<close>

definition voice_change :: "world \<Rightarrow> args \<Rightarrow> string \<Rightarrow> string \<Rightarrow> unit run" where
  "voice_change w a vocals output_path =
     bind (get_rvc_model w (voice_model a) (is_webui a)) (\<lambda>(rvc_model_path, rvc_index_path).
       engine w
         (RvcInfer rvc_model_path rvc_index_path vocals output_path (total_pitch a)
            (f0_method a) (index_rate a) (filter_radius a) (rms_mix_rate a) (protect a)
            (crepe_hop_length a))
         [vocals] [output_path])"

definition add_audio_effects :: "world \<Rightarrow> args \<Rightarrow> string \<Rightarrow> string run" where
  "add_audio_effects w a audio_path =
     (let output_path = fst (splitext audio_path) @ ''_mixed.wav''
      in bind (engine w
                 (Effects audio_path output_path (reverb_rm_size a) (reverb_wet a)
                    (reverb_dry a) (reverb_damping a))
                 [audio_path] [output_path])
           (\<lambda>_. ret output_path))"

definition combine_audio :: "world \<Rightarrow> args \<Rightarrow> string list \<Rightarrow> string \<Rightarrow> unit run" where
  "combine_audio w a audio_paths output_path =
     engine w
       (Mix audio_paths output_path (main_gain a) (backup_gain a) (inst_gain a)
          (output_format a))
       audio_paths [output_path]"

section \<open>\<open>song_cover_pipeline\<close>\<close>

text \<open>
  The function is cut at its comments and blank lines into the steps below, each with
  the lines of \<open>main.py\<close> it stands for. \<open>display_progress\<close> only prints or reports; it
  is left out.
\<close>

subsection \<open>Lines 326 to 342: the kind of input and the song's identifier\<close>

definition resolve_input :: "world \<Rightarrow> args \<Rightarrow> (input_type \<times> string \<times> string) run" where
  "resolve_input w a =
     (if song_input a = [] \<or> voice_model a = []
      then raise (raise_exception
                    ''Ensure that the song input field and voice model field is filled.''
                    (is_webui a))
      else
        bind (lift (urlparse w (song_input a))) (\<lambda>parsed.
          if url_scheme parsed = ''https''
          then
            bind (lift (get_youtube_video_id w (song_input a) True)) (\<lambda>song_id.
              case song_id of
                None \<Rightarrow> raise (raise_exception ''Invalid YouTube url.'' (is_webui a))
              | Some i \<Rightarrow> ret (Yt, song_input a, i))
          else
            (let song_in = strip [CHR 0x22] (song_input a)
             in bind (os_path_exists song_in) (\<lambda>ex.
                  if ex then bind (get_hash w song_in) (\<lambda>song_id. ret (Local, song_in, song_id))
                  else raise (raise_exception (song_in @ '' does not exist.'') (is_webui a))))))"

subsection \<open>Lines 344 to 362: separate, or take what the run directory has\<close>

record song_paths =
  orig_song_path :: string
  vocals_path :: "string option"
  instrumentals_path :: string
  main_vocals_path :: "string option"
  backup_vocals_path :: string
  main_vocals_dereverb_path :: string

definition unpack ::
  "string \<times> string \<times> string \<times> string \<times> string \<times> string \<Rightarrow> song_paths" where
  "unpack r =
     (case r of (orig, vocals, inst, main_vocals, backup, main_dereverb) \<Rightarrow>
        \<lparr> orig_song_path = orig, vocals_path = Some vocals, instrumentals_path = inst,
          main_vocals_path = Some main_vocals, backup_vocals_path = backup,
          main_vocals_dereverb_path = main_dereverb \<rparr>)"

text \<open>
  \<open>any(path is None for path in paths) or keep_files\<close> is the test for separating again;
  in the last branch the four paths are there, and \<open>main_vocals_path\<close> is set to the
  dereverbed main vocals.
\<close>

definition discover ::
  "world \<Rightarrow> args \<Rightarrow> input_type \<Rightarrow> string \<Rightarrow> string \<Rightarrow> song_paths run" where
  "discover w a itype song_in song_id =
     (let song_dir = path_join (output_dir w) song_id
      in bind (os_path_exists song_dir) (\<lambda>ex.
           if \<not> ex
           then bind (os_makedirs song_dir) (\<lambda>_.
                bind (preprocess_song w song_in song_id itype) (\<lambda>r. ret (unpack r)))
           else
             bind (get_audio_paths song_dir) (\<lambda>paths.
               case paths of
                 (Some orig, Some inst, Some main_dereverb, Some backup) \<Rightarrow>
                   if keep_files a
                   then bind (preprocess_song w song_in song_id itype) (\<lambda>r. ret (unpack r))
                   else ret \<lparr> orig_song_path = orig, vocals_path = None,
                              instrumentals_path = inst, main_vocals_path = Some main_dereverb,
                              backup_vocals_path = backup,
                              main_vocals_dereverb_path = main_dereverb \<rparr>
               | _ \<Rightarrow> bind (preprocess_song w song_in song_id itype) (\<lambda>r. ret (unpack r)))))"

subsection \<open>Lines 381 to 388: the two voice conversions\<close>

definition convert_stage :: "world \<Rightarrow> args \<Rightarrow> song_paths \<Rightarrow> artifact_paths \<Rightarrow> unit run" where
  "convert_stage w a sp ap =
     bind (os_path_exists (ai_vocals_path ap)) (\<lambda>ex.
       if \<not> ex
       then bind (voice_change w a (main_vocals_dereverb_path sp) (ai_vocals_path ap)) (\<lambda>_.
              voice_change w a (backup_vocals_path sp) (ai_backing_path ap))
       else ret ())"

subsection \<open>Lines 390 to 392: the effects\<close>

definition effects_stage :: "world \<Rightarrow> args \<Rightarrow> artifact_paths \<Rightarrow> (string \<times> string) run" where
  "effects_stage w a ap =
     bind (add_audio_effects w a (ai_vocals_path ap)) (\<lambda>ai_vocals_mixed_path.
     bind (add_audio_effects w a (ai_backing_path ap)) (\<lambda>ai_backing_mixed_path.
     ret (ai_vocals_mixed_path, ai_backing_mixed_path)))"

subsection \<open>Lines 394 to 397: the overall pitch change\<close>

text \<open>The result is the new \<open>instrumentals_path\<close> and the new \<open>backup_vocals_path\<close>.\<close>

definition pitch_stage :: "world \<Rightarrow> args \<Rightarrow> song_paths \<Rightarrow> (string \<times> string) run" where
  "pitch_stage w a sp =
     (if pitch_change_all a \<noteq> 0
      then bind (pitch_shift w (instrumentals_path sp) (pitch_change_all a)) (\<lambda>inst.
           bind (pitch_shift w (backup_vocals_path sp) (pitch_change_all a)) (\<lambda>backup.
           ret (inst, backup)))
      else ret (instrumentals_path sp, backup_vocals_path sp))"

subsection \<open>Lines 399 to 403: the two mixes\<close>

definition mix_stage ::
  "world \<Rightarrow> args \<Rightarrow> artifact_paths \<Rightarrow> string \<Rightarrow> string \<Rightarrow> string \<Rightarrow> string \<Rightarrow> unit run" where
  "mix_stage w a ap ai_vocals_mixed_path ai_backing_mixed_path inst backup =
     bind (combine_audio w a [ai_vocals_mixed_path, backup, inst] (ai_cover_path ap)) (\<lambda>_.
       combine_audio w a [ai_vocals_mixed_path, ai_backing_mixed_path, inst]
         (ai_cover_backing_path ap))"

subsection \<open>Lines 405 to 412: removing the intermediate files\<close>

definition intermediate_files ::
  "args \<Rightarrow> song_paths \<Rightarrow> string \<Rightarrow> string \<Rightarrow> string \<Rightarrow> string \<Rightarrow> string option list" where
  "intermediate_files a sp ai_vocals_mixed_path ai_backing_mixed_path inst backup =
     [vocals_path sp, main_vocals_path sp, Some ai_vocals_mixed_path, Some ai_backing_mixed_path]
       @ (if pitch_change_all a \<noteq> 0 then [Some inst, Some backup] else [])"

text \<open>\<open>if file and os.path.exists(file): os.remove(file)\<close>, for each file of the list.\<close>

fun remove_each :: "world \<Rightarrow> string option list \<Rightarrow> unit run" where
  "remove_each w [] = ret ()"
| "remove_each w (file # rest) =
     bind (case file of
             None \<Rightarrow> ret ()
           | Some f \<Rightarrow>
               if f = [] then ret ()
               else bind (os_path_exists f) (\<lambda>ex. if ex then os_remove w f else ret ()))
       (\<lambda>_. remove_each w rest)"

definition cleanup ::
  "world \<Rightarrow> args \<Rightarrow> song_paths \<Rightarrow> string \<Rightarrow> string \<Rightarrow> string \<Rightarrow> string \<Rightarrow> unit run" where
  "cleanup w a sp ai_vocals_mixed_path ai_backing_mixed_path inst backup =
     (if \<not> keep_files a
      then remove_each w
             (intermediate_files a sp ai_vocals_mixed_path ai_backing_mixed_path inst backup)
      else ret ())"

subsection \<open>The whole function\<close>

text \<open>
  Lines 364 to 403, from the artifact paths to the two mixes, for the paths of a song: the
  result is what the removal needs, the paths of the song, the artifact paths, the two
  effect outputs, and the instrumental and backup paths after the overall pitch change.
\<close>

type_synonym stage_result = "song_paths \<times> artifact_paths \<times> string \<times> string \<times> string \<times> string"

definition late_stages :: "world \<Rightarrow> args \<Rightarrow> string \<Rightarrow> song_paths \<Rightarrow> stage_result run" where
  "late_stages w a song_id sp =
     (let ap = resolve_paths (path_join (output_dir w) song_id) (orig_song_path sp) a in
      bind (convert_stage w a sp ap) (\<lambda>_.
      bind (effects_stage w a ap) (\<lambda>(ai_vocals_mixed_path, ai_backing_mixed_path).
      bind (pitch_stage w a sp) (\<lambda>(inst, backup).
      bind (mix_stage w a ap ai_vocals_mixed_path ai_backing_mixed_path inst backup) (\<lambda>_.
      ret (sp, ap, ai_vocals_mixed_path, ai_backing_mixed_path, inst, backup))))))"

text \<open>Lines 326 to 403, everything before the removal.\<close>

definition run_stages :: "world \<Rightarrow> args \<Rightarrow> stage_result run" where
  "run_stages w a =
     bind (resolve_input w a) (\<lambda>(itype, song_in, song_id).
     bind (discover w a itype song_in song_id) (\<lambda>sp.
     late_stages w a song_id sp))"

definition pipeline_body :: "world \<Rightarrow> args \<Rightarrow> (string \<times> string) run" where
  "pipeline_body w a =
     bind (run_stages w a)
       (\<lambda>(sp, ap, ai_vocals_mixed_path, ai_backing_mixed_path, inst, backup).
     bind (cleanup w a sp ai_vocals_mixed_path ai_backing_mixed_path inst backup) (\<lambda>_.
     ret (ai_cover_path ap, ai_cover_backing_path ap)))"

text \<open>
  \<open>except Exception as e: raise_exception(str(e), is_webui)\<close>: whatever is raised inside
  is raised again, as \<open>gr.Error\<close> or \<open>Exception\<close>, with the text of the first.
\<close>

definition str_of_exception :: "world \<Rightarrow> error \<Rightarrow> string" where
  "str_of_exception w e =
     (case e of
        Raise c m \<Rightarrow> if c = GrError then gr_error_str w m else m
      | RaiseOS c ps \<Rightarrow> os_error_str w c ps)"

definition song_cover_pipeline :: "world \<Rightarrow> args \<Rightarrow> (string \<times> string) run" where
  "song_cover_pipeline w a s =
     (case pipeline_body w a s of
        (Inl e, s') \<Rightarrow> (Inl (raise_exception (str_of_exception w e) (is_webui a)), s')
      | (Inr r, s') \<Rightarrow> (Inr r, s'))"

section \<open>Observing a run\<close>

text \<open>The library calls made between two states of one run.\<close>

definition new_events :: "state \<Rightarrow> state \<Rightarrow> event list" where
  "new_events s s' = drop (length (trace s)) (trace s')"


text \<open>The calls of the voice conversion.\<close>

fun is_conversion :: "event \<Rightarrow> bool" where
  "is_conversion (RvcInfer _ _ _ _ _ _ _ _ _ _ _) = True"
| "is_conversion _ = False"

text \<open>The models of the separation passes among some calls, in order.\<close>

definition separation_models :: "event list \<Rightarrow> string list" where
  "separation_models evs =
     concat (map (\<lambda>e. case e of Separate m _ _ \<Rightarrow> [m] | _ \<Rightarrow> []) evs)"

text \<open>
  The run directory has the four discovery artifacts when \<open>get_audio_paths\<close> returns
  four paths, none of them \<open>None\<close>.
\<close>

definition discovery_complete :: "string \<Rightarrow> state \<Rightarrow> bool" where
  "discovery_complete song_dir s =
     (case get_audio_paths song_dir s of
        (Inr (Some _, Some _, Some _, Some _), _) \<Rightarrow> True
      | _ \<Rightarrow> False)"


section \<open>Example inputs\<close>

text \<open>
  The scenario of the specification: the local file \<open>song.wav\<close>, the voice model
  \<open>alice\<close>, pitch change \<open>+2\<close>, every other parameter at its default.
\<close>

definition example_args :: args where
  "example_args =
     \<lparr> song_input = ''/music/song.wav'', voice_model = ''alice'', pitch_change = 2,
       keep_files = False, is_webui = False, main_gain = 0, backup_gain = 0, inst_gain = 0,
       index_rate = ''0.5'', filter_radius = 3, rms_mix_rate = ''0.25'', f0_method = ''rmvpe'',
       crepe_hop_length = 128, protect = ''0.33'', pitch_change_all = 0,
       reverb_rm_size = ''0.15'', reverb_wet = ''0.2'', reverb_dry = ''0.8'',
       reverb_damping = ''0.7'', output_format = ''mp3'' \<rparr>"

definition example_dir :: string where
  "example_dir = ''/app/song_output/a1b2c3d4e5f''"

text \<open>
  An installation in \<open>/app\<close> with the voice model \<open>alice\<close>; a separator that names its two
  stems \<open>stem0.wav\<close> and \<open>stem1.wav\<close>; stereo input; no library fails and no removal is
  denied. (The digest is a stand-in with the identifier of the scenario as its prefix; so
  are the texts of the exceptions and the tables of the standard library.)
\<close>

definition example_world :: world where
  "example_world =
     \<lparr> unicode_lower = (\<lambda>s. s), nfkc = (\<lambda>s. s), utf8_replace = (\<lambda>s. s),
       ip_address = (\<lambda>h. if CHR '':'' \<in> set h then IPv6Address
                          else NotAnAddress (h @ '' is not an address'')),
       base_dir = ''/app'', yt_prepared = (\<lambda>_. None), mono = (\<lambda>_. False),
       stems = (\<lambda>_ _. [''stem0.wav'', ''stem1.wav'']), fails = (\<lambda>_. None),
       unreadable = (\<lambda>_ p. ''cannot read '' @ p),
       ffmpeg_files = (\<lambda>command. (take 1 (drop 5 command), take 1 (drop 10 command))),
       written = (\<lambda>_. ''RIFF''), denied = (\<lambda>_. False), gr_error_str = (\<lambda>m. m),
       os_error_str = (\<lambda>_ ps. concat ps),
       blake2b_hexdigest = (\<lambda>_. ''a1b2c3d4e5f60718293a4b5c6d7e8f90'') \<rparr>"

definition example_state :: state where
  "example_state =
     \<lparr> files = [(''/music/song.wav'', File ''abc''), (''/app/song_output'', Dir),
                (''/app/rvc_models/alice'', Dir),
                (''/app/rvc_models/alice/alice.pth'', File ''weights'')],
       trace = [] \<rparr>"

text \<open>The same request with a plain \<open>http\<close> link as the song.\<close>

definition http_args :: args where
  "http_args = example_args\<lparr>song_input := ''http://youtu.be/SA2iWivDJiE''\<rparr>"

definition http_url :: url where
  "http_url =
     \<lparr> url_scheme = ''http'', url_netloc = ''youtu.be'', url_path = ''/SA2iWivDJiE'',
       url_params = [], url_query = [], url_fragment = [] \<rparr>"

text \<open>The same request with a link whose square bracket is not closed, and without a model.\<close>

definition bracket_args :: args where
  "bracket_args = example_args\<lparr>song_input := ''http://[::1/song.wav''\<rparr>"

definition no_model_args :: args where
  "no_model_args = example_args\<lparr>voice_model := []\<rparr>"

text \<open>
  The files of the example after its separation, in a new process: the run directory with
  the instrumental, the raw vocals, the vocals without reverb, the backup vocals and the
  dereverbed main vocals.
\<close>

definition separated_state :: state where
  "separated_state =
     \<lparr> files = [(''/music/song.wav'', File ''abc''), (''/app/song_output'', Dir),
                (''/app/rvc_models/alice'', Dir),
                (''/app/rvc_models/alice/alice.pth'', File ''weights''),
                (''/app/song_output/a1b2c3d4e5f'', Dir),
                (''/app/song_output/a1b2c3d4e5f/song_Instrumental.wav'', File ''RIFF''),
                (''/app/song_output/a1b2c3d4e5f/song_Vocals.wav'', File ''RIFF''),
                (''/app/song_output/a1b2c3d4e5f/song_Vocals (No Reverb).wav'', File ''RIFF''),
                (''/app/song_output/a1b2c3d4e5f/song_Vocals_Backup.wav'', File ''RIFF''),
                (''/app/song_output/a1b2c3d4e5f/song_Vocals_Main_DeReverb.wav'', File ''RIFF'')],
       trace = [] \<rparr>"


text \<open>The request of the example with \<open>keep_files\<close> set.\<close>

definition keep_args :: args where
  "keep_args = example_args\<lparr>keep_files := True\<rparr>"


text \<open>
  The paths that the discovery finds in that run directory, and the artifact paths of the
  example for them.
\<close>

definition example_paths :: song_paths where
  "example_paths =
     \<lparr> orig_song_path = ''/app/song_output/a1b2c3d4e5f/song.wav'', vocals_path = None,
       instrumentals_path = ''/app/song_output/a1b2c3d4e5f/song_Instrumental.wav'',
       main_vocals_path = Some ''/app/song_output/a1b2c3d4e5f/song_Vocals_Main_DeReverb.wav'',
       backup_vocals_path = ''/app/song_output/a1b2c3d4e5f/song_Vocals_Backup.wav'',
       main_vocals_dereverb_path =
         ''/app/song_output/a1b2c3d4e5f/song_Vocals_Main_DeReverb.wav'' \<rparr>"

definition example_artifacts :: artifact_paths where
  "example_artifacts = resolve_paths example_dir (orig_song_path example_paths) example_args"

text \<open>The same run directory with the lead conversion of the example, and no backing one.\<close>

definition lead_only_state :: state where
  "lead_only_state =
     separated_state\<lparr>files := files separated_state @
        [(''/app/song_output/a1b2c3d4e5f/song_lead_alice_p2_i0.5_fr3_rms0.25_pro0.33_rmvpe.wav'',
          File ''RIFF'')]\<rparr>"

section \<open>Facts about strings and paths\<close>

lemma basename_no_slash: "CHR ''/'' \<notin> set (basename p)"
  unfolding basename_def by (auto dest: set_takeWhileD)

lemma basename_subset: "set (basename p) \<subseteq> set p"
  unfolding basename_def by (auto dest: set_takeWhileD)

lemma basename_idem: "CHR ''/'' \<notin> set p \<Longrightarrow> basename p = p"
proof -
  assume "CHR ''/'' \<notin> set p"
  then have "takeWhile (\<lambda>c. c \<noteq> CHR ''/'') (rev p) = rev p"
    by (auto simp: takeWhile_eq_all_conv)
  then show ?thesis unfolding basename_def by (simp only: rev_rev_ident)
qed

lemma splitext_root_subset: "set (fst (splitext p)) \<subseteq> set p"
  using basename_subset [of p] unfolding splitext_def Let_def
  by (auto dest!: in_set_takeD)

lemma base_song_name_no_slash: "CHR ''/'' \<notin> set (fst (splitext (basename p)))"
  using splitext_root_subset [of "basename p"] basename_no_slash [of p] by blast


subsection \<open>Printing an integer is injective\<close>

lemma digit_char_val: "d < 10 \<Longrightarrow> (of_char (digit_char d) :: nat) = 48 + d"
  by (simp add: digit_char_def)

lemma undigits_digits: "undigits (digits n) = n"
proof (induction n rule: digits.induct)
  case (1 n)
  show ?case
  proof (cases "n < 10")
    case True
    then show ?thesis
      by (subst digits.simps) (simp add: undigits_def digit_char_val)
  next
    case False
    with 1 have "undigits (digits (n div 10)) = n div 10" by simp
    with False show ?thesis
      by (subst digits.simps) (simp add: undigits_def digit_char_val)
  qed
qed

lemma digits_inj: "digits m = digits n \<Longrightarrow> m = n"
  by (metis undigits_digits)

lemma digits_chars:
  "c \<in> set (digits n) \<Longrightarrow> 48 \<le> (of_char c :: nat) \<and> (of_char c :: nat) < 58"
proof (induction n rule: digits.induct)
  case (1 n)
  show ?case
  proof (cases "n < 10")
    case True
    with 1(2) show ?thesis
      by (subst (asm) digits.simps) (simp add: digit_char_val)
  next
    case False
    with 1 show ?thesis
      by (subst (asm) (2) digits.simps) (auto simp: digit_char_val)
  qed
qed

lemma digits_nonempty: "digits n \<noteq> []"
  by (subst digits.simps) simp

lemma digits_no_minus: "digits n \<noteq> CHR ''-'' # s"
proof
  assume "digits n = CHR ''-'' # s"
  then have "CHR ''-'' \<in> set (digits n)" by simp
  from digits_chars [OF this] show False by simp
qed

lemma str_int_inj: "str_int i = str_int j \<Longrightarrow> i = j"
  unfolding str_int_def
  by (auto split: if_splits dest: digits_inj simp: digits_no_minus digits_no_minus [symmetric])

subsection \<open>Joining a directory and a conversion file name\<close>

lemma conv_name_no_lead_slash:
  "CHR ''/'' \<notin> set base \<Longrightarrow> \<not> startswith (conv_name base role a) ''/''"
  unfolding conv_name_def startswith_def by (cases base) auto

lemma path_join_cancel:
  "\<not> startswith x ''/'' \<Longrightarrow> \<not> startswith y ''/'' \<Longrightarrow>
   (path_join d x = path_join d y) = (x = y)"
  unfolding path_join_def by auto

lemma conv_path_eq:
  "CHR ''/'' \<notin> set base \<Longrightarrow>
   (path_join d (conv_name base role a) = path_join d (conv_name base role b))
     = (conv_name base role a = conv_name base role b)"
  by (rule path_join_cancel) (simp_all add: conv_name_no_lead_slash)

lemma sel_resolve:
  "sel = ai_vocals_path \<or> sel = ai_backing_path \<Longrightarrow>
   \<exists>role. \<forall>x. sel (resolve_paths d orig x)
      = path_join d (conv_name (fst (splitext (basename orig))) role x)"
  unfolding resolve_paths_def Let_def by auto

lemma conv_name_tail_eq:
  "(f @ algo_suffix a @ ''.wav'' = g @ algo_suffix b @ ''.wav'')
     = (f @ algo_suffix a = g @ algo_suffix b)"
proof -
  have "(f @ algo_suffix a @ ''.wav'' = g @ algo_suffix b @ ''.wav'')
      = ((f @ algo_suffix a) @ ''.wav'' = (g @ algo_suffix b) @ ''.wav'')"
    by simp
  also have "\<dots> = (f @ algo_suffix a = g @ algo_suffix b)"
    by (rule append_same_eq)
  finally show ?thesis .
qed








subsection \<open>Sequencing\<close>

lemma bind_ret [simp]: "bind (ret x) f = f x"
  by (rule ext) (simp add: bind_def ret_def)

lemma bind_raise [simp]: "bind (raise e) f = raise e"
  by (rule ext) (simp add: bind_def raise_def)

lemma bind_lift_Inr [simp]: "bind (lift (Inr x)) f = f x"
  by (rule ext) (simp add: bind_def lift_def)

lemma bind_lift_Inl [simp]: "bind (lift (Inl e)) f = raise e"
  by (rule ext) (simp add: bind_def lift_def raise_def)

lemma bind_os_path_exists [simp]:
  "bind (os_path_exists p) f s = f (path_exists (files s) p) s"
  by (simp add: bind_def os_path_exists_def)

lemma bind_eq_Inr:
  "(bind m f s = (Inr y, s'')) = (\<exists>x s'. m s = (Inr x, s') \<and> f x s' = (Inr y, s''))"
  by (auto simp: bind_def split: prod.splits sum.splits)

lemma bind_eq_Inl:
  "(bind m f s = (Inl e, s'')) =
     (m s = (Inl e, s'') \<or> (\<exists>x s'. m s = (Inr x, s') \<and> f x s' = (Inl e, s'')))"
  by (auto simp: bind_def split: prod.splits sum.splits)

subsection \<open>Reading the input\<close>

lemma hash_loop_eq: "hash_loop f h = h @ f"
proof (induction f h rule: hash_loop.induct)
  case (1 f file_hash)
  show ?case
  proof (cases "take 8192 f = []")
    case True
    then show ?thesis by (subst hash_loop.simps) (simp add: Let_def)
  next
    case False
    with 1 have "hash_loop (drop 8192 f) (file_hash @ take 8192 f)
        = (file_hash @ take 8192 f) @ drop 8192 f"
      by simp
    with False show ?thesis by (subst hash_loop.simps) (simp add: Let_def)
  qed
qed

lemma get_hash_state: "get_hash w p s = (r, s') \<Longrightarrow> s' = s"
  by (auto simp: get_hash_def split: option.splits node.splits)

lemma resolve_input_state: "resolve_input w a s = (r, s') \<Longrightarrow> s' = s"
  unfolding resolve_input_def Let_def
  by (auto simp: raise_def ret_def bind_def lift_def os_path_exists_def
      split: if_splits sum.splits option.splits prod.splits dest: get_hash_state)

subsection \<open>What a successful step leaves behind\<close>

lemma bindE:
  assumes "bind m f s = (Inr y, s'')"
  obtains x s' where "m s = (Inr x, s')" "f x s' = (Inr y, s'')"
  using assms by (auto simp: bind_eq_Inr)

lemma engine_trace: "trace (snd (engine w ev ins outs s)) = trace s @ [ev]"
  by (simp add: engine_def Let_def split: list.splits option.splits)

lemma engine_Inr:
  "engine w ev ins outs s = (Inr x, s') \<Longrightarrow>
     trace s' = trace s @ [ev]
     \<and> files s' = foldl (\<lambda>fs p. AList.update p (File (written w p)) fs) (files s) outs"
  by (auto simp: engine_def Let_def split: list.splits option.splits)

lemma os_rename_trace: "os_rename a b s = (r, s') \<Longrightarrow> trace s' = trace s"
  by (auto simp: os_rename_def split: option.splits if_splits)

lemma os_remove_trace: "os_remove w p s = (r, s') \<Longrightarrow> trace s' = trace s"
  by (auto simp: os_remove_def split: option.splits node.splits if_splits)

lemma os_makedirs_trace: "os_makedirs p s = (r, s') \<Longrightarrow> trace s' = trace s"
  by (auto simp: os_makedirs_def split: if_splits)

lemma os_listdir_state: "os_listdir d s = (r, s') \<Longrightarrow> s' = s"
  by (auto simp: os_listdir_def split: option.splits node.splits)

lemma lift_Inr: "lift r s = (Inr x, s') \<Longrightarrow> s' = s \<and> r = Inr x"
  by (simp add: lift_def)

lemma separate_Inr:
  "separate w m f out s = (Inr r, s') \<Longrightarrow> trace s' = trace s @ [Separate m f out]"
  by (auto simp: separate_def bind_eq_Inr ret_def dest!: engine_Inr)

lemma separation_uvr_Inr:
  assumes "separation_uvr w f out s = (Inr r, s')"
  shows "r = (path_join out (fst (splitext (basename f)) @ ''_Vocals (No Reverb).wav''),
              path_join out (fst (splitext (basename f)) @ ''_Instrumental.wav''),
              path_join out (fst (splitext (basename f)) @ ''_Vocals_Main_DeReverb.wav''),
              path_join out (fst (splitext (basename f)) @ ''_Vocals_Backup.wav''))
       \<and> trace s' = trace s @
           [Separate ''model_bs_roformer_ep_317_sdr_12.9755.ckpt'' f out,
            Separate ''UVR-DeEcho-DeReverb.pth''
              (path_join out (fst (splitext (basename f)) @ ''_Vocals.wav'')) out,
            Separate ''mel_band_roformer_karaoke_aufr33_viperx_sdr_10.1956.ckpt''
              (path_join out (fst (splitext (basename f)) @ ''_Vocals (No Reverb).wav'')) out]"
  using assms unfolding separation_uvr_def Let_def
  apply (elim bindE)
  apply (auto simp: ret_def os_path_exists_def
      dest!: separate_Inr os_rename_trace lift_Inr os_remove_trace split: if_splits)
  done

lemma yt_download_Inr:
  "yt_download w link s = (Inr r, s') \<Longrightarrow> trace s' = trace s @ [YtDownload link]"
  by (auto simp: yt_download_def Let_def bind_eq_Inr ret_def
      split: option.splits dest!: engine_Inr)

lemma convert_to_stereo_Inr:
  "convert_to_stereo w p s = (Inr r, s') \<Longrightarrow>
     \<exists>q evs. p = Some q \<and> trace s' = trace s @ LoadAudio q # evs
        \<and> (\<forall>m f out. Separate m f out \<notin> set evs)"
  by (auto simp: convert_to_stereo_def Let_def bind_eq_Inr ret_def raise_def lift_def
      split: option.splits if_splits dest!: engine_Inr)

lemma preprocess_song_Inr:
  assumes "preprocess_song w si sid it s = (Inr r, s')"
  shows "\<exists>orig pre.
      r = (orig,
           path_join (path_join (output_dir w) sid)
             (fst (splitext (basename orig)) @ ''_Vocals (No Reverb).wav''),
           path_join (path_join (output_dir w) sid)
             (fst (splitext (basename orig)) @ ''_Instrumental.wav''),
           path_join (path_join (output_dir w) sid)
             (fst (splitext (basename orig)) @ ''_Vocals_Main_DeReverb.wav''),
           path_join (path_join (output_dir w) sid)
             (fst (splitext (basename orig)) @ ''_Vocals_Backup.wav''),
           path_join (path_join (output_dir w) sid)
             (fst (splitext (basename orig)) @ ''_Vocals_Main_DeReverb.wav''))
    \<and> trace s' = trace s @ pre @
           [Separate ''model_bs_roformer_ep_317_sdr_12.9755.ckpt'' orig
              (path_join (output_dir w) sid),
            Separate ''UVR-DeEcho-DeReverb.pth''
              (path_join (path_join (output_dir w) sid)
                 (fst (splitext (basename orig)) @ ''_Vocals.wav''))
              (path_join (output_dir w) sid),
            Separate ''mel_band_roformer_karaoke_aufr33_viperx_sdr_10.1956.ckpt''
              (path_join (path_join (output_dir w) sid)
                 (fst (splitext (basename orig)) @ ''_Vocals (No Reverb).wav''))
              (path_join (output_dir w) sid)]
    \<and> (\<exists>q. LoadAudio q \<in> set pre)
    \<and> (it = Yt \<longrightarrow> (\<exists>l. YtDownload l \<in> set pre))
    \<and> (\<forall>m f out. Separate m f out \<notin> set pre)"
  using assms unfolding preprocess_song_def Let_def
  apply (elim bindE)
  apply (auto simp: ret_def os_path_exists_def raise_def
      split: if_splits input_type.splits list.splits prod.splits
      dest!: separation_uvr_Inr convert_to_stereo_Inr yt_download_Inr os_makedirs_trace)
  done

subsection \<open>The calls of a run\<close>

lemma new_events_append: "trace s' = trace s @ evs \<Longrightarrow> new_events s s' = evs"
  by (simp add: new_events_def)

lemma new_events_same [simp]: "new_events s s = []"
  by (simp add: new_events_def)

lemma separation_models_none:
  "(\<forall>m f out. Separate m f out \<notin> set evs) \<Longrightarrow> separation_models evs = []"
  unfolding separation_models_def
  by (induction evs) (auto split: event.splits)

lemma separation_models_append:
  "separation_models (xs @ ys) = separation_models xs @ separation_models ys"
  by (simp add: separation_models_def)

subsection \<open>The voice conversion\<close>

lemma get_rvc_model_state: "get_rvc_model w m wu s = (r, s') \<Longrightarrow> s' = s"
  by (auto simp: get_rvc_model_def Let_def bind_def os_path_exists_def raise_def ret_def
      split: if_splits sum.splits prod.splits option.splits dest: os_listdir_state)

lemma voice_change_Inr:
  assumes "voice_change w a v out s = (Inr r, s')"
  shows "\<exists>m i. trace s' = trace s @
            [RvcInfer m i v out (total_pitch a) (f0_method a) (index_rate a)
               (filter_radius a) (rms_mix_rate a) (protect a) (crepe_hop_length a)]
       \<and> files s' = AList.update out (File (written w out)) (files s)"
  using assms unfolding voice_change_def
  apply (elim bindE)
  apply (auto split: prod.splits dest!: get_rvc_model_state engine_Inr)
  done

lemma is_file_update:
  "is_file (AList.update p (File c) fs) q = (q = p \<or> is_file fs q)"
  by (simp add: is_file_def update_conv')

lemma trace_bind_ret: "trace (snd (bind m (\<lambda>x. ret (f x)) s)) = trace (snd (m s))"
  by (simp add: bind_def ret_def split: prod.splits sum.splits)

subsection \<open>Discovery\<close>

lemma get_audio_paths_state: "get_audio_paths d s = (r, s') \<Longrightarrow> s' = s"
  by (auto simp: get_audio_paths_def bind_def ret_def split: prod.splits sum.splits dest: os_listdir_state)

lemma get_audio_paths_Inr_exists:
  "get_audio_paths d s = (Inr r, s') \<Longrightarrow> map_of (files s) d = Some Dir"
  by (auto simp: get_audio_paths_def bind_eq_Inr os_listdir_def split: option.splits node.splits)

lemma discovery_complete_exists:
  "discovery_complete d s \<Longrightarrow> path_exists (files s) d"
  by (auto simp: discovery_complete_def path_exists_def split: prod.splits sum.splits option.splits
      dest!: get_audio_paths_Inr_exists)

lemma preprocess_song_events:
  assumes r: "preprocess_song w si sid it s = (Inr r, s')"
  shows "separation_models (new_events s s') =
           [''model_bs_roformer_ep_317_sdr_12.9755.ckpt'', ''UVR-DeEcho-DeReverb.pth'',
            ''mel_band_roformer_karaoke_aufr33_viperx_sdr_10.1956.ckpt'']
       \<and> (\<exists>q. LoadAudio q \<in> set (new_events s s'))
       \<and> (it = Yt \<longrightarrow> (\<exists>l. YtDownload l \<in> set (new_events s s')))"
proof -
  from preprocess_song_Inr [OF r] obtain pre x y z where
    t: "trace s' = trace s @ pre @
          [Separate ''model_bs_roformer_ep_317_sdr_12.9755.ckpt'' x (path_join (output_dir w) sid),
           Separate ''UVR-DeEcho-DeReverb.pth'' y (path_join (output_dir w) sid),
           Separate ''mel_band_roformer_karaoke_aufr33_viperx_sdr_10.1956.ckpt'' z
             (path_join (output_dir w) sid)]"
    and l: "\<exists>q. LoadAudio q \<in> set pre"
    and d: "it = Yt \<longrightarrow> (\<exists>l. YtDownload l \<in> set pre)"
    and n: "\<forall>m f out. Separate m f out \<notin> set pre"
    by blast
  from t have ne: "new_events s s' = pre @
          [Separate ''model_bs_roformer_ep_317_sdr_12.9755.ckpt'' x (path_join (output_dir w) sid),
           Separate ''UVR-DeEcho-DeReverb.pth'' y (path_join (output_dir w) sid),
           Separate ''mel_band_roformer_karaoke_aufr33_viperx_sdr_10.1956.ckpt'' z
             (path_join (output_dir w) sid)]"
    by (rule new_events_append)
  have "separation_models (new_events s s') =
          [''model_bs_roformer_ep_317_sdr_12.9755.ckpt'', ''UVR-DeEcho-DeReverb.pth'',
           ''mel_band_roformer_karaoke_aufr33_viperx_sdr_10.1956.ckpt'']"
    unfolding ne separation_models_append separation_models_none [OF n]
    by (simp add: separation_models_def)
  with l d ne show ?thesis by auto
qed

lemma discover_unfold:
  "discover w a it si sid s =
     (if \<not> path_exists (files s) (path_join (output_dir w) sid)
      then bind (os_makedirs (path_join (output_dir w) sid))
             (\<lambda>_. bind (preprocess_song w si sid it) (\<lambda>r. ret (unpack r))) s
      else case get_audio_paths (path_join (output_dir w) sid) s of
             (Inl e, _) \<Rightarrow> (Inl e, s)
           | (Inr (Some orig, Some inst, Some main_dereverb, Some backup), _) \<Rightarrow>
               if keep_files a
               then bind (preprocess_song w si sid it) (\<lambda>r. ret (unpack r)) s
               else (Inr \<lparr> orig_song_path = orig, vocals_path = None,
                         instrumentals_path = inst, main_vocals_path = Some main_dereverb,
                         backup_vocals_path = backup,
                         main_vocals_dereverb_path = main_dereverb \<rparr>, s)
           | (Inr _, _) \<Rightarrow> bind (preprocess_song w si sid it) (\<lambda>r. ret (unpack r)) s)"
  unfolding discover_def Let_def
  apply (simp)
  apply (cases "get_audio_paths (path_join (output_dir w) sid) s")
  apply (auto simp: bind_def ret_def split: sum.splits option.splits prod.splits dest!: get_audio_paths_state)
  done

lemma get_audio_paths_Dir:
  "map_of (files s) d = Some Dir \<Longrightarrow> \<exists>r. get_audio_paths d s = (Inr r, s)"
  by (rule exI [of _ "foldl (audio_scan d) (None, None, None, None)
        (List.map_filter (child_name d) (map fst (files s)))"])
     (simp add: get_audio_paths_def bind_def os_listdir_def ret_def)

lemma new_events_cong: "trace s1 = trace s \<Longrightarrow> new_events s1 s' = new_events s s'"
  by (simp add: new_events_def)

lemma discovery_complete_iff:
  "discovery_complete d s =
     (\<exists>orig inst main_dereverb backup.
        get_audio_paths d s = (Inr (Some orig, Some inst, Some main_dereverb, Some backup), s))"
proof (cases "get_audio_paths d s")
  case (Pair r s2)
  then have "s2 = s" by (rule get_audio_paths_state)
  with Pair show ?thesis
    by (cases r) (auto simp: discovery_complete_def split: option.splits)
qed

lemma discover_reuse:
  assumes "get_audio_paths (path_join (output_dir w) sid) s
             = (Inr (Some orig, Some inst, Some main_dereverb, Some backup), s)"
    and "\<not> keep_files a"
  shows "discover w a it si sid s =
           (Inr \<lparr> orig_song_path = orig, vocals_path = None,
                  instrumentals_path = inst, main_vocals_path = Some main_dereverb,
                  backup_vocals_path = backup,
                  main_vocals_dereverb_path = main_dereverb \<rparr>, s)"
proof -
  from assms(1) have "path_exists (files s) (path_join (output_dir w) sid)"
    by (auto simp: path_exists_def dest: get_audio_paths_Inr_exists)
  with assms show ?thesis by (simp add: discover_unfold)
qed

lemma discover_again:
  assumes e: "path_exists (files s) (path_join (output_dir w) sid)"
    and n: "\<not> (discovery_complete (path_join (output_dir w) sid) s \<and> \<not> keep_files a)"
    and d: "discover w a it si sid s = (Inr sp, s')"
  shows "bind (preprocess_song w si sid it) (\<lambda>r. ret (unpack r)) s = (Inr sp, s')"
proof (cases "get_audio_paths (path_join (output_dir w) sid) s")
  case (Pair r s2)
  then have s2: "s2 = s" by (rule get_audio_paths_state)
  show ?thesis
  proof (cases r)
    case (Inl x)
    with Pair e d show ?thesis by (simp add: discover_unfold)
  next
    case (Inr p)
    obtain orig inst main_dereverb backup where p: "p = (orig, inst, main_dereverb, backup)"
      by (cases p) auto
    from n Pair Inr p s2 have
      "keep_files a \<or> orig = None \<or> inst = None \<or> main_dereverb = None \<or> backup = None"
      by (auto simp: discovery_complete_iff)
    with Pair Inr p e d show ?thesis
      by (cases orig; cases inst; cases main_dereverb; cases backup)
         (auto simp: discover_unfold)
  qed
qed

lemma discover_events:
  assumes d: "discover w a it si sid s = (Inr sp, s')"
  shows "(discovery_complete (path_join (output_dir w) sid) s \<and> \<not> keep_files a
            \<longrightarrow> s' = s)
       \<and> (\<not> (discovery_complete (path_join (output_dir w) sid) s \<and> \<not> keep_files a) \<longrightarrow>
            separation_models (new_events s s') =
              [''model_bs_roformer_ep_317_sdr_12.9755.ckpt'', ''UVR-DeEcho-DeReverb.pth'',
               ''mel_band_roformer_karaoke_aufr33_viperx_sdr_10.1956.ckpt'']
          \<and> (\<exists>q. LoadAudio q \<in> set (new_events s s'))
          \<and> (it = Yt \<longrightarrow> (\<exists>l. YtDownload l \<in> set (new_events s s'))))"
proof (cases "path_exists (files s) (path_join (output_dir w) sid)")
  case False
  then have nc: "\<not> discovery_complete (path_join (output_dir w) sid) s"
    using discovery_complete_exists by blast
  from d False obtain s1 r where
    m: "os_makedirs (path_join (output_dir w) sid) s = (Inr (), s1)"
    and p: "preprocess_song w si sid it s1 = (Inr r, s')"
    by (auto simp: discover_unfold bind_eq_Inr ret_def)
  from os_makedirs_trace [OF m] have "new_events s1 s' = new_events s s'"
    by (rule new_events_cong)
  with preprocess_song_events [OF p] nc show ?thesis by simp
next
  case True
  show ?thesis
  proof (cases "discovery_complete (path_join (output_dir w) sid) s \<and> \<not> keep_files a")
    case c: True
    then obtain orig inst main_dereverb backup where
      "get_audio_paths (path_join (output_dir w) sid) s
         = (Inr (Some orig, Some inst, Some main_dereverb, Some backup), s)"
      by (auto simp: discovery_complete_iff)
    from discover_reuse [OF this, of a it si] c d have "s' = s" by simp
    with c show ?thesis by simp
  next
    case c: False
    from discover_again [OF True c d] obtain r where
      p: "preprocess_song w si sid it s = (Inr r, s')"
      by (auto simp: bind_eq_Inr ret_def)
    from preprocess_song_events [OF p] c show ?thesis by blast
  qed
qed

subsection \<open>The scan of the listing\<close>







subsection \<open>Which calls a step can make\<close>
















subsection \<open>The pipeline after the discovery\<close>






subsection \<open>What \<open>urlparse\<close> raises\<close>

lemma urlparse_Inl: "urlparse w u = Inl e \<Longrightarrow> \<exists>m. e = Raise ValueError m"
  by (auto simp: urlparse_def check_bracketed_host_def checknetloc_def Let_def
      split: prod.splits if_splits option.splits ip.splits)

lemma pipeline_of_resolve_Inl:
  "resolve_input w a s = (Inl e, s') \<Longrightarrow>
     song_cover_pipeline w a s = (Inl (raise_exception (str_of_exception w e) (is_webui a)), s')"
  by (simp add: song_cover_pipeline_def pipeline_body_def run_stages_def bind_def)

section \<open>Conversion file names and their parameters\<close>

text \<open>
  Claim C8, as amended. The lead and the backing conversion paths are functions of the run
  directory, the song's name and the parameters. With everything else fixed, a different
  voice model, pitch change, index rate, filter radius, rms-mix rate or protect value gives
  a different path; a different hop length gives a different path exactly when the
  algorithm is \<open>mangio-crepe\<close>; a different algorithm name gives a different path unless
  one of the two names is \<open>mangio-crepe\<close> and the other is \<open>mangio-crepe_\<close> followed by the
  hop length, in which case the two paths are the same.
\<close>

theorem conversion_paths_embed_parameters:
  assumes sel: "sel = ai_vocals_path \<or> sel = ai_backing_path"
  shows
   "(v \<noteq> voice_model a \<longrightarrow>
       sel (resolve_paths d orig (a\<lparr>voice_model := v\<rparr>)) \<noteq> sel (resolve_paths d orig a))
  \<and> (p \<noteq> pitch_change a \<longrightarrow>
       sel (resolve_paths d orig (a\<lparr>pitch_change := p\<rparr>)) \<noteq> sel (resolve_paths d orig a))
  \<and> (i \<noteq> index_rate a \<longrightarrow>
       sel (resolve_paths d orig (a\<lparr>index_rate := i\<rparr>)) \<noteq> sel (resolve_paths d orig a))
  \<and> (fr \<noteq> filter_radius a \<longrightarrow>
       sel (resolve_paths d orig (a\<lparr>filter_radius := fr\<rparr>)) \<noteq> sel (resolve_paths d orig a))
  \<and> (rms \<noteq> rms_mix_rate a \<longrightarrow>
       sel (resolve_paths d orig (a\<lparr>rms_mix_rate := rms\<rparr>)) \<noteq> sel (resolve_paths d orig a))
  \<and> (pro \<noteq> protect a \<longrightarrow>
       sel (resolve_paths d orig (a\<lparr>protect := pro\<rparr>)) \<noteq> sel (resolve_paths d orig a))
  \<and> (h \<noteq> crepe_hop_length a \<longrightarrow>
       (sel (resolve_paths d orig (a\<lparr>crepe_hop_length := h\<rparr>)) \<noteq> sel (resolve_paths d orig a))
         = (f0_method a = ''mangio-crepe''))
  \<and> (f \<noteq> f0_method a \<longrightarrow>
       (sel (resolve_paths d orig (a\<lparr>f0_method := f\<rparr>)) = sel (resolve_paths d orig a))
         = (f0_method a = ''mangio-crepe'' \<and> f = ''mangio-crepe_'' @ str_int (crepe_hop_length a)
            \<or> f = ''mangio-crepe''
              \<and> f0_method a = ''mangio-crepe_'' @ str_int (crepe_hop_length a)))"
proof -
  let ?B = "fst (splitext (basename orig))"
  from sel_resolve [OF sel] obtain role where
    R: "\<And>x. sel (resolve_paths d orig x) = path_join d (conv_name ?B role x)" by blast
  have ns: "CHR ''/'' \<notin> set ?B" by (rule base_song_name_no_slash)
  note E = R conv_path_eq [OF ns]
  have 1: "v \<noteq> voice_model a \<longrightarrow>
       sel (resolve_paths d orig (a\<lparr>voice_model := v\<rparr>)) \<noteq> sel (resolve_paths d orig a)"
    unfolding E by (simp add: conv_name_def total_pitch_def algo_suffix_def)
  have 2: "p \<noteq> pitch_change a \<longrightarrow>
       sel (resolve_paths d orig (a\<lparr>pitch_change := p\<rparr>)) \<noteq> sel (resolve_paths d orig a)"
    unfolding E
    by (auto simp add: conv_name_def total_pitch_def algo_suffix_def dest: str_int_inj)
  have 3: "i \<noteq> index_rate a \<longrightarrow>
       sel (resolve_paths d orig (a\<lparr>index_rate := i\<rparr>)) \<noteq> sel (resolve_paths d orig a)"
    unfolding E by (simp add: conv_name_def total_pitch_def algo_suffix_def)
  have 4: "fr \<noteq> filter_radius a \<longrightarrow>
       sel (resolve_paths d orig (a\<lparr>filter_radius := fr\<rparr>)) \<noteq> sel (resolve_paths d orig a)"
    unfolding E
    by (auto simp add: conv_name_def total_pitch_def algo_suffix_def dest: str_int_inj)
  have 5: "rms \<noteq> rms_mix_rate a \<longrightarrow>
       sel (resolve_paths d orig (a\<lparr>rms_mix_rate := rms\<rparr>)) \<noteq> sel (resolve_paths d orig a)"
    unfolding E by (simp add: conv_name_def total_pitch_def algo_suffix_def)
  have 6: "pro \<noteq> protect a \<longrightarrow>
       sel (resolve_paths d orig (a\<lparr>protect := pro\<rparr>)) \<noteq> sel (resolve_paths d orig a)"
    unfolding E by (simp add: conv_name_def total_pitch_def algo_suffix_def)
  have 7: "h \<noteq> crepe_hop_length a \<longrightarrow>
       (sel (resolve_paths d orig (a\<lparr>crepe_hop_length := h\<rparr>)) \<noteq> sel (resolve_paths d orig a))
         = (f0_method a = ''mangio-crepe'')"
    unfolding E
    by (auto simp add: conv_name_def total_pitch_def algo_suffix_def dest: str_int_inj)
  have 8: "f \<noteq> f0_method a \<longrightarrow>
       (sel (resolve_paths d orig (a\<lparr>f0_method := f\<rparr>)) = sel (resolve_paths d orig a))
         = (f0_method a = ''mangio-crepe'' \<and> f = ''mangio-crepe_'' @ str_int (crepe_hop_length a)
            \<or> f = ''mangio-crepe''
              \<and> f0_method a = ''mangio-crepe_'' @ str_int (crepe_hop_length a))"
    unfolding E
    by (auto simp add: conv_name_def total_pitch_def algo_suffix_def conv_name_tail_eq)
  from 1 2 3 4 5 6 7 8 show ?thesis by blast
qed

text \<open>
  The theorem at the example: each of the eight changes is a real change there, and the
  lead path moves with each of them but the hop length, the algorithm being \<open>rmvpe\<close>.
\<close>

theorem conversion_paths_embed_parameters_witness:
  "(ai_vocals_path = ai_vocals_path \<or> ai_vocals_path = ai_backing_path)
   \<and> ''bob'' \<noteq> voice_model example_args \<and> 3 \<noteq> pitch_change example_args
   \<and> ''0.75'' \<noteq> index_rate example_args \<and> 5 \<noteq> filter_radius example_args
   \<and> ''0.5'' \<noteq> rms_mix_rate example_args \<and> ''0.4'' \<noteq> protect example_args
   \<and> 64 \<noteq> crepe_hop_length example_args \<and> ''mangio-crepe'' \<noteq> f0_method example_args
   \<and> ai_vocals_path (resolve_paths example_dir ''/music/song.wav''
         (example_args\<lparr>voice_model := ''bob''\<rparr>))
       \<noteq> ai_vocals_path (resolve_paths example_dir ''/music/song.wav'' example_args)
   \<and> ai_vocals_path (resolve_paths example_dir ''/music/song.wav''
         (example_args\<lparr>pitch_change := 3\<rparr>))
       \<noteq> ai_vocals_path (resolve_paths example_dir ''/music/song.wav'' example_args)
   \<and> ai_vocals_path (resolve_paths example_dir ''/music/song.wav''
         (example_args\<lparr>index_rate := ''0.75''\<rparr>))
       \<noteq> ai_vocals_path (resolve_paths example_dir ''/music/song.wav'' example_args)
   \<and> ai_vocals_path (resolve_paths example_dir ''/music/song.wav''
         (example_args\<lparr>filter_radius := 5\<rparr>))
       \<noteq> ai_vocals_path (resolve_paths example_dir ''/music/song.wav'' example_args)
   \<and> ai_vocals_path (resolve_paths example_dir ''/music/song.wav''
         (example_args\<lparr>rms_mix_rate := ''0.5''\<rparr>))
       \<noteq> ai_vocals_path (resolve_paths example_dir ''/music/song.wav'' example_args)
   \<and> ai_vocals_path (resolve_paths example_dir ''/music/song.wav''
         (example_args\<lparr>protect := ''0.4''\<rparr>))
       \<noteq> ai_vocals_path (resolve_paths example_dir ''/music/song.wav'' example_args)
   \<and> ai_vocals_path (resolve_paths example_dir ''/music/song.wav''
         (example_args\<lparr>crepe_hop_length := 64\<rparr>))
       = ai_vocals_path (resolve_paths example_dir ''/music/song.wav'' example_args)
   \<and> ai_vocals_path (resolve_paths example_dir ''/music/song.wav''
         (example_args\<lparr>f0_method := ''mangio-crepe''\<rparr>))
       \<noteq> ai_vocals_path (resolve_paths example_dir ''/music/song.wav'' example_args)"
  using conversion_paths_embed_parameters
    [where sel = ai_vocals_path and a = example_args and d = example_dir
       and orig = "''/music/song.wav''" and v = "''bob''" and p = 3 and i = "''0.75''"
       and fr = 5 and rms = "''0.5''" and pro = "''0.4''" and h = 64
       and f = "''mangio-crepe''"]
  by (simp add: example_args_def)

text \<open>
  Claim C8 as stated fails: with the algorithm \<open>mangio-crepe\<close> and hop length 128, changing
  only the algorithm name to \<open>mangio-crepe_128\<close> leaves the lead path as it was.
\<close>

theorem algorithm_name_collision:
  "f0_method (example_args\<lparr>f0_method := ''mangio-crepe''\<rparr>) \<noteq> ''mangio-crepe_128''
   \<and> ai_vocals_path (resolve_paths example_dir ''/music/song.wav''
        (example_args\<lparr>f0_method := ''mangio-crepe''\<rparr>))
     = ai_vocals_path (resolve_paths example_dir ''/music/song.wav''
        (example_args\<lparr>f0_method := ''mangio-crepe_128''\<rparr>))"
  by code_simp

section \<open>The identifier of a YouTube link\<close>

text \<open>
  Claim C7 at the raw-path form \<open>/watch/<id>\<close>: the function returns the path segment
  \<open>watch\<close>, not the identifier. (The branch reads element 1 of the split path; the
  branches for \<open>/embed/\<close> and \<open>/v/\<close> read element 2.)
\<close>

theorem watch_path_returns_watch:
  "get_youtube_video_id w ''https://www.youtube.com/watch/SA2iWivDJiE'' True
     = Inr (Some ''watch'')"
  by code_simp

section \<open>The identifier of a local file\<close>

text \<open>
  Claim C6. For a file with the bytes \<open>content\<close>, \<open>get_hash\<close> returns the first 11
  characters of the hexadecimal BLAKE2b digest of \<open>content\<close>, whatever the size of the
  chunks it was read in, and changes nothing. Two files with the same bytes, at any paths
  and in any states, get the same identifier; it has 11 characters when the digest has at
  least 11 (BLAKE2b's has 128).
\<close>

theorem get_hash_is_digest_prefix:
  assumes "map_of (files s) p = Some (File content)"
  shows "get_hash w p s = (Inr (take 11 (blake2b_hexdigest w content)), s)
       \<and> (map_of (files s') p' = Some (File content) \<longrightarrow>
            fst (get_hash w p' s') = fst (get_hash w p s))
       \<and> (11 \<le> length (blake2b_hexdigest w content) \<longrightarrow>
            (\<exists>i. fst (get_hash w p s) = Inr i \<and> length i = 11))"
  using assms by (simp add: get_hash_def hash_loop_eq)

theorem get_hash_is_digest_prefix_witness:
  "map_of (files example_state) ''/music/song.wav'' = Some (File ''abc'')
   \<and> map_of (files (example_state\<lparr>trace := [LoadAudio ''x'']\<rparr>)) ''/music/song.wav''
       = Some (File ''abc'')
   \<and> 11 \<le> length (blake2b_hexdigest example_world ''abc'')
   \<and> get_hash example_world ''/music/song.wav'' example_state
       = (Inr ''a1b2c3d4e5f'', example_state)
   \<and> fst (get_hash example_world ''/music/song.wav''
            (example_state\<lparr>trace := [LoadAudio ''x'']\<rparr>))
       = fst (get_hash example_world ''/music/song.wav'' example_state)"
proof -
  have h: "map_of (files example_state) ''/music/song.wav'' = Some (File ''abc'')"
    by (simp add: example_state_def)
  have h': "map_of (files (example_state\<lparr>trace := [LoadAudio ''x'']\<rparr>)) ''/music/song.wav''
       = Some (File ''abc'')"
    by (simp add: example_state_def)
  from get_hash_is_digest_prefix [OF h, of example_world
      "example_state\<lparr>trace := [LoadAudio ''x'']\<rparr>" "''/music/song.wav''"] h h'
  show ?thesis by (simp add: example_world_def)
qed

section \<open>What counts as a link\<close>

text \<open>
  Claim C10, amended. The input is taken as a link only if \<open>urlparse\<close> accepts it and the
  scheme of the result is \<open>https\<close>. Let the two fields be filled. If \<open>urlparse\<close> accepts
  the input with any other scheme, \<open>http\<close> included, the input without its surrounding
  double quotes is a path: if it exists, the identifier is its hash; if it does not, the
  pipeline raises \<open><path> does not exist.\<close> (as \<open>gr.Error\<close> in the web UI, as \<open>Exception\<close>
  otherwise) and leaves the state as it was: no file is written and no library is
  called, so nothing is downloaded. If \<open>urlparse\<close> rejects the input, the pipeline raises
  the text of that \<open>ValueError\<close> instead, whether a file of that name exists or not, and
  again leaves the state as it was. With an empty field it raises the request to fill
  both, and leaves the state as it was.
\<close>

theorem only_https_is_remote:
  "((\<exists>si sid s'. resolve_input w a s = (Inr (Yt, si, sid), s')) \<longrightarrow>
      (\<exists>u. urlparse w (song_input a) = Inr u \<and> url_scheme u = ''https''))
 \<and> (song_input a \<noteq> [] \<and> voice_model a \<noteq> [] \<longrightarrow>
      (\<forall>u. urlparse w (song_input a) = Inr u \<and> url_scheme u \<noteq> ''https'' \<longrightarrow>
         (path_exists (files s) (strip [CHR 0x22] (song_input a)) \<longrightarrow>
            resolve_input w a s =
              bind (get_hash w (strip [CHR 0x22] (song_input a)))
                (\<lambda>song_id. ret (Local, strip [CHR 0x22] (song_input a), song_id)) s)
       \<and> (\<not> path_exists (files s) (strip [CHR 0x22] (song_input a)) \<longrightarrow>
            song_cover_pipeline w a s =
              (Inl (Raise (if is_webui a then GrError else PyException)
                      (if is_webui a
                       then gr_error_str w
                              (strip [CHR 0x22] (song_input a) @ '' does not exist.'')
                       else strip [CHR 0x22] (song_input a) @ '' does not exist.'')), s)))
    \<and> (\<forall>e. urlparse w (song_input a) = Inl e \<longrightarrow>
         (\<exists>m. e = Raise ValueError m
            \<and> song_cover_pipeline w a s
                = (Inl (Raise (if is_webui a then GrError else PyException) m), s))))
 \<and> (song_input a = [] \<or> voice_model a = [] \<longrightarrow>
      song_cover_pipeline w a s =
        (Inl (Raise (if is_webui a then GrError else PyException)
                (if is_webui a
                 then gr_error_str w
                        ''Ensure that the song input field and voice model field is filled.''
                 else ''Ensure that the song input field and voice model field is filled.'')),
         s))"
proof -
  let ?local = "strip [CHR 0x22] (song_input a)"
  let ?filled = "song_input a \<noteq> [] \<and> voice_model a \<noteq> []"
  have R: "resolve_input w a s =
          (if path_exists (files s) ?local
           then bind (get_hash w ?local) (\<lambda>song_id. ret (Local, ?local, song_id)) s
           else raise (raise_exception (?local @ '' does not exist.'') (is_webui a)) s)"
    if "?filled" "urlparse w (song_input a) = Inr u" "url_scheme u \<noteq> ''https''" for u
    using that by (simp add: resolve_input_def Let_def)
  have E: "resolve_input w a s = (Inl e, s)"
    if "?filled" "urlparse w (song_input a) = Inl e" for e
    using that by (simp add: resolve_input_def raise_def)
  have N: "resolve_input w a s =
        (Inl (raise_exception
                ''Ensure that the song input field and voice model field is filled.''
                (is_webui a)), s)"
    if "\<not> ?filled"
    using that by (auto simp: resolve_input_def raise_def)
  have 1: "\<exists>u. urlparse w (song_input a) = Inr u \<and> url_scheme u = ''https''"
    if ex: "\<exists>si sid s'. resolve_input w a s = (Inr (Yt, si, sid), s')"
  proof -
    from ex N have f: "?filled" by auto
    show ?thesis
    proof (cases "urlparse w (song_input a)")
      case (Inl e)
      with E [OF f] ex show ?thesis by auto
    next
      case (Inr u)
      show ?thesis
      proof (rule ccontr)
        assume "\<not> ?thesis"
        with Inr have "url_scheme u \<noteq> ''https''" by simp
        from R [OF f Inr this] ex show False
          by (auto simp: bind_eq_Inr ret_def raise_def split: if_splits)
      qed
    qed
  qed
  have 2: "resolve_input w a s
        = bind (get_hash w ?local) (\<lambda>song_id. ret (Local, ?local, song_id)) s"
    if "?filled" "urlparse w (song_input a) = Inr u" "url_scheme u \<noteq> ''https''"
      "path_exists (files s) ?local" for u
    using R [OF that(1-3)] that(4) by simp
  have 3: "song_cover_pipeline w a s =
            (Inl (Raise (if is_webui a then GrError else PyException)
                    (if is_webui a then gr_error_str w (?local @ '' does not exist.'')
                     else ?local @ '' does not exist.'')), s)"
    if "?filled" "urlparse w (song_input a) = Inr u" "url_scheme u \<noteq> ''https''"
      "\<not> path_exists (files s) ?local" for u
    using R [OF that(1-3)] that(4)
    by (simp add: pipeline_of_resolve_Inl raise_def raise_exception_def str_of_exception_def)
  have 4: "\<exists>m. e = Raise ValueError m
            \<and> song_cover_pipeline w a s
                = (Inl (Raise (if is_webui a then GrError else PyException) m), s)"
    if "?filled" "urlparse w (song_input a) = Inl e" for e
    using urlparse_Inl [OF that(2)] pipeline_of_resolve_Inl [OF E [OF that]]
    by (auto simp: raise_exception_def str_of_exception_def)
  have 5: "song_cover_pipeline w a s =
        (Inl (Raise (if is_webui a then GrError else PyException)
                (if is_webui a
                 then gr_error_str w
                        ''Ensure that the song input field and voice model field is filled.''
                 else ''Ensure that the song input field and voice model field is filled.'')),
         s)"
    if "\<not> ?filled"
    using pipeline_of_resolve_Inl [OF N [OF that]]
    by (simp add: raise_exception_def str_of_exception_def)
  from 1 2 3 4 5 show ?thesis by blast
qed

text \<open>
  The theorem at four requests: \<open>http://youtu.be/SA2iWivDJiE\<close>, whose scheme is \<open>http\<close>
  and which no file is named after; the local file of the example; a link with an open
  square bracket; and a request without a voice model.
\<close>

theorem only_https_is_remote_witness:
  "urlparse example_world (song_input http_args) = Inr http_url
   \<and> url_scheme http_url \<noteq> ''https''
   \<and> \<not> path_exists (files example_state) (strip [CHR 0x22] (song_input http_args))
   \<and> song_cover_pipeline example_world http_args example_state
       = (Inl (Raise PyException ''http://youtu.be/SA2iWivDJiE does not exist.''),
          example_state)
   \<and> path_exists (files example_state) (strip [CHR 0x22] (song_input example_args))
   \<and> resolve_input example_world example_args example_state
       = (Inr (Local, ''/music/song.wav'', ''a1b2c3d4e5f''), example_state)
   \<and> urlparse example_world (song_input bracket_args)
       = Inl (Raise ValueError ''Invalid IPv6 URL'')
   \<and> song_cover_pipeline example_world bracket_args example_state
       = (Inl (Raise PyException ''Invalid IPv6 URL''), example_state)
   \<and> voice_model no_model_args = []
   \<and> song_cover_pipeline example_world no_model_args example_state
       = (Inl (Raise PyException
                 ''Ensure that the song input field and voice model field is filled.''),
          example_state)"
proof -
  have f: "song_input http_args \<noteq> [] \<and> voice_model http_args \<noteq> []"
    "song_input example_args \<noteq> [] \<and> voice_model example_args \<noteq> []"
    "song_input bracket_args \<noteq> [] \<and> voice_model bracket_args \<noteq> []"
    by (simp_all add: http_args_def bracket_args_def example_args_def)
  have w: "\<not> is_webui http_args" "\<not> is_webui bracket_args" "\<not> is_webui no_model_args"
    by (simp_all add: http_args_def bracket_args_def no_model_args_def example_args_def)
  have p: "urlparse example_world (song_input http_args) = Inr http_url"
    by code_simp
  have n: "url_scheme http_url \<noteq> ''https''"
    by (simp add: http_url_def)
  have e: "\<not> path_exists (files example_state) (strip [CHR 0x22] (song_input http_args))"
    by code_simp
  have l: "strip [CHR 0x22] (song_input http_args) = ''http://youtu.be/SA2iWivDJiE''"
    by code_simp
  from only_https_is_remote [of example_world http_args example_state] f(1) p n e w(1)
  have 1: "song_cover_pipeline example_world http_args example_state
       = (Inl (Raise PyException (strip [CHR 0x22] (song_input http_args) @ '' does not exist.'')),
          example_state)"
    by simp
  let ?u = "\<lparr> url_scheme = [], url_netloc = [], url_path = ''/music/song.wav'',
              url_params = [], url_query = [], url_fragment = [] \<rparr>"
  have pl: "urlparse example_world (song_input example_args) = Inr ?u"
    by code_simp
  have nl: "url_scheme ?u \<noteq> ''https''"
    by simp
  have el: "path_exists (files example_state) (strip [CHR 0x22] (song_input example_args))"
    by code_simp
  have hl: "bind (get_hash example_world (strip [CHR 0x22] (song_input example_args)))
              (\<lambda>song_id. ret (Local, strip [CHR 0x22] (song_input example_args), song_id))
              example_state
            = (Inr (Local, ''/music/song.wav'', ''a1b2c3d4e5f''), example_state)"
    by code_simp
  from only_https_is_remote [of example_world example_args example_state] f(2) pl nl el
  have "resolve_input example_world example_args example_state =
          bind (get_hash example_world (strip [CHR 0x22] (song_input example_args)))
              (\<lambda>song_id. ret (Local, strip [CHR 0x22] (song_input example_args), song_id))
              example_state"
    by blast
  with hl have 2: "resolve_input example_world example_args example_state
       = (Inr (Local, ''/music/song.wav'', ''a1b2c3d4e5f''), example_state)"
    by simp
  have pb: "urlparse example_world (song_input bracket_args)
       = Inl (Raise ValueError ''Invalid IPv6 URL'')"
    by code_simp
  from only_https_is_remote [of example_world bracket_args example_state] f(3) pb w(2)
  have 3: "song_cover_pipeline example_world bracket_args example_state
       = (Inl (Raise PyException ''Invalid IPv6 URL''), example_state)"
    by auto
  have v: "voice_model no_model_args = []"
    by (simp add: no_model_args_def)
  from only_https_is_remote [of example_world no_model_args example_state] v w(3)
  have 4: "song_cover_pipeline example_world no_model_args example_state
       = (Inl (Raise PyException
                 ''Ensure that the song input field and voice model field is filled.''),
          example_state)"
    by simp
  from p n e 1 l el 2 pb 3 v 4 show ?thesis by simp
qed

text \<open>
  The claim as it stood fails at \<open>http://[::1/song.wav\<close>: the scheme is not \<open>https\<close> and
  no file has that name, yet what the pipeline raises is \<open>Invalid IPv6 URL\<close>, not that
  the input does not exist.
\<close>

theorem unparsable_input_is_not_reported_missing:
  "\<not> path_exists (files example_state) (strip [CHR 0x22] (song_input bracket_args))
   \<and> song_cover_pipeline example_world bracket_args example_state
       = (Inl (Raise PyException ''Invalid IPv6 URL''), example_state)
   \<and> ''Invalid IPv6 URL'' \<noteq> strip [CHR 0x22] (song_input bracket_args) @ '' does not exist.''"
  by code_simp

section \<open>Separating again\<close>

text \<open>
  Claim C9. When the run directory exists and \<open>keep_files\<close> is true, the step that
  decides about preprocessing runs \<open>preprocess_song\<close> from the state it finds, whatever
  the directory holds. And whenever that step returns, it has made no separation call
  exactly if the four discovery artifacts were found and \<open>keep_files\<close> is false; in every
  other case the audio was loaded for the stereo conversion, the three separation passes
  were run, in their order, and a link was downloaded first.
\<close>

theorem keep_files_forces_preprocessing:
  "(map_of (files s) (path_join (output_dir w) sid) = Some Dir \<and> keep_files a \<longrightarrow>
      discover w a it si sid s = bind (preprocess_song w si sid it) (\<lambda>r. ret (unpack r)) s)
 \<and> (\<forall>sp s'. discover w a it si sid s = (Inr sp, s') \<longrightarrow>
      ((separation_models (new_events s s') = [])
         = (discovery_complete (path_join (output_dir w) sid) s \<and> \<not> keep_files a))
    \<and> (\<not> (discovery_complete (path_join (output_dir w) sid) s \<and> \<not> keep_files a) \<longrightarrow>
         separation_models (new_events s s') =
           [''model_bs_roformer_ep_317_sdr_12.9755.ckpt'', ''UVR-DeEcho-DeReverb.pth'',
            ''mel_band_roformer_karaoke_aufr33_viperx_sdr_10.1956.ckpt'']
       \<and> (\<exists>q. LoadAudio q \<in> set (new_events s s'))
       \<and> (it = Yt \<longrightarrow> (\<exists>l. YtDownload l \<in> set (new_events s s')))))"
proof -
  have 1: "map_of (files s) (path_join (output_dir w) sid) = Some Dir \<and> keep_files a \<longrightarrow>
      discover w a it si sid s = bind (preprocess_song w si sid it) (\<lambda>r. ret (unpack r)) s"
  proof
    assume h: "map_of (files s) (path_join (output_dir w) sid) = Some Dir \<and> keep_files a"
    then obtain r where "get_audio_paths (path_join (output_dir w) sid) s = (Inr r, s)"
      using get_audio_paths_Dir by blast
    with h show "discover w a it si sid s
        = bind (preprocess_song w si sid it) (\<lambda>r. ret (unpack r)) s"
      by (auto simp: discover_unfold path_exists_def split: option.splits prod.splits)
  qed
  have 2: "\<forall>sp s'. discover w a it si sid s = (Inr sp, s') \<longrightarrow>
      ((separation_models (new_events s s') = [])
         = (discovery_complete (path_join (output_dir w) sid) s \<and> \<not> keep_files a))
    \<and> (\<not> (discovery_complete (path_join (output_dir w) sid) s \<and> \<not> keep_files a) \<longrightarrow>
         separation_models (new_events s s') =
           [''model_bs_roformer_ep_317_sdr_12.9755.ckpt'', ''UVR-DeEcho-DeReverb.pth'',
            ''mel_band_roformer_karaoke_aufr33_viperx_sdr_10.1956.ckpt'']
       \<and> (\<exists>q. LoadAudio q \<in> set (new_events s s'))
       \<and> (it = Yt \<longrightarrow> (\<exists>l. YtDownload l \<in> set (new_events s s'))))"
  proof (intro allI impI)
    fix sp s' assume d: "discover w a it si sid s = (Inr sp, s')"
    from discover_events [OF d] show "((separation_models (new_events s s') = [])
         = (discovery_complete (path_join (output_dir w) sid) s \<and> \<not> keep_files a))
    \<and> (\<not> (discovery_complete (path_join (output_dir w) sid) s \<and> \<not> keep_files a) \<longrightarrow>
         separation_models (new_events s s') =
           [''model_bs_roformer_ep_317_sdr_12.9755.ckpt'', ''UVR-DeEcho-DeReverb.pth'',
            ''mel_band_roformer_karaoke_aufr33_viperx_sdr_10.1956.ckpt'']
       \<and> (\<exists>q. LoadAudio q \<in> set (new_events s s'))
       \<and> (it = Yt \<longrightarrow> (\<exists>l. YtDownload l \<in> set (new_events s s'))))"
      by (cases "discovery_complete (path_join (output_dir w) sid) s \<and> \<not> keep_files a")
         (auto simp: separation_models_def)
  qed
  from 1 2 show ?thesis by blast
qed

text \<open>
  The theorem at the run directory of the example after its separation, with
  \<open>keep_files\<close> set: the four artifacts are found, and the three passes are run again.
\<close>

theorem keep_files_forces_preprocessing_witness:
  "map_of (files separated_state) (path_join (output_dir example_world) ''a1b2c3d4e5f'')
     = Some Dir
   \<and> keep_files keep_args
   \<and> discovery_complete (path_join (output_dir example_world) ''a1b2c3d4e5f'') separated_state
   \<and> \<not> isl (fst (discover example_world keep_args Local ''/music/song.wav'' ''a1b2c3d4e5f''
                    separated_state))
   \<and> discover example_world keep_args Local ''/music/song.wav'' ''a1b2c3d4e5f''
        separated_state
     = bind (preprocess_song example_world ''/music/song.wav'' ''a1b2c3d4e5f'' Local)
         (\<lambda>r. ret (unpack r)) separated_state
   \<and> separation_models
        (new_events separated_state
           (snd (discover example_world keep_args Local ''/music/song.wav'' ''a1b2c3d4e5f''
                   separated_state)))
     = [''model_bs_roformer_ep_317_sdr_12.9755.ckpt'', ''UVR-DeEcho-DeReverb.pth'',
        ''mel_band_roformer_karaoke_aufr33_viperx_sdr_10.1956.ckpt'']"
proof -
  let ?d = "discover example_world keep_args Local ''/music/song.wav'' ''a1b2c3d4e5f''
              separated_state"
  have m: "map_of (files separated_state)
             (path_join (output_dir example_world) ''a1b2c3d4e5f'') = Some Dir"
    by code_simp
  have k: "keep_files keep_args"
    by (simp add: keep_args_def)
  have c: "discovery_complete (path_join (output_dir example_world) ''a1b2c3d4e5f'')
             separated_state"
    by code_simp
  have r: "\<not> isl (fst ?d)"
    by code_simp
  then have d: "?d = (Inr (projr (fst ?d)), snd ?d)"
    by (cases ?d; cases "fst ?d") auto
  note t = keep_files_forces_preprocessing
    [of separated_state example_world "''a1b2c3d4e5f''" keep_args Local "''/music/song.wav''"]
  from t m k have 1: "?d = bind (preprocess_song example_world ''/music/song.wav''
                                   ''a1b2c3d4e5f'' Local) (\<lambda>r. ret (unpack r)) separated_state"
    by blast
  from t d k have 2: "separation_models (new_events separated_state (snd ?d))
     = [''model_bs_roformer_ep_317_sdr_12.9755.ckpt'', ''UVR-DeEcho-DeReverb.pth'',
        ''mel_band_roformer_karaoke_aufr33_viperx_sdr_10.1956.ckpt'']"
    by blast
  from m k c r 1 2 show ?thesis by blast
qed

section \<open>A run directory that has the separation\<close>



section \<open>Two runs on one song\<close>




section \<open>When a stage runs\<close>

text \<open>
  Claim C3, amended. The voice conversion is one stage with one test, on the lead output
  only. If the lead output exists, the stage does nothing, whether the backing output
  exists or not. If the lead output does not exist, the stage is the lead conversion
  followed by the backing conversion, whether the backing output exists or not; when it
  returns, it has made these two calls, in this order, and both outputs are files. The
  pitch shift of a file is run exactly if its output does not exist. The effects and the
  mix have no test: each call of \<open>add_audio_effects\<close> and of \<open>combine_audio\<close> calls its
  library, whatever exists.
\<close>

theorem conversion_guarded_by_lead_only:
  "(path_exists (files s) (ai_vocals_path ap) \<longrightarrow> convert_stage w a sp ap s = (Inr (), s))
 \<and> (\<not> path_exists (files s) (ai_vocals_path ap) \<longrightarrow>
      convert_stage w a sp ap s
        = bind (voice_change w a (main_vocals_dereverb_path sp) (ai_vocals_path ap))
            (\<lambda>_. voice_change w a (backup_vocals_path sp) (ai_backing_path ap)) s
    \<and> (\<forall>s'. convert_stage w a sp ap s = (Inr (), s') \<longrightarrow>
         (\<exists>m i m' i'. new_events s s' =
            [RvcInfer m i (main_vocals_dereverb_path sp) (ai_vocals_path ap) (total_pitch a)
               (f0_method a) (index_rate a) (filter_radius a) (rms_mix_rate a) (protect a)
               (crepe_hop_length a),
             RvcInfer m' i' (backup_vocals_path sp) (ai_backing_path ap) (total_pitch a)
               (f0_method a) (index_rate a) (filter_radius a) (rms_mix_rate a) (protect a)
               (crepe_hop_length a)])
       \<and> is_file (files s') (ai_vocals_path ap) \<and> is_file (files s') (ai_backing_path ap)))
 \<and> (path_exists (files s) (fst (splitext p) @ ''_p'' @ str_int n @ ''.wav'') \<longrightarrow>
      pitch_shift w p n s = (Inr (fst (splitext p) @ ''_p'' @ str_int n @ ''.wav''), s))
 \<and> (\<not> path_exists (files s) (fst (splitext p) @ ''_p'' @ str_int n @ ''.wav'') \<longrightarrow>
      new_events s (snd (pitch_shift w p n s))
        = [PitchShift p (fst (splitext p) @ ''_p'' @ str_int n @ ''.wav'') n])
 \<and> new_events s (snd (add_audio_effects w a p s))
      = [Effects p (fst (splitext p) @ ''_mixed.wav'') (reverb_rm_size a) (reverb_wet a)
           (reverb_dry a) (reverb_damping a)]
 \<and> new_events s (snd (combine_audio w a ps out s))
      = [Mix ps out (main_gain a) (backup_gain a) (inst_gain a) (output_format a)]"
proof -
  let ?lead = "voice_change w a (main_vocals_dereverb_path sp) (ai_vocals_path ap)"
  let ?backing = "voice_change w a (backup_vocals_path sp) (ai_backing_path ap)"
  let ?out = "fst (splitext p) @ ''_p'' @ str_int n @ ''.wav''"
  have 1: "path_exists (files s) (ai_vocals_path ap) \<longrightarrow>
      convert_stage w a sp ap s = (Inr (), s)"
    by (simp add: convert_stage_def ret_def)
  have 2: "convert_stage w a sp ap s = bind ?lead (\<lambda>_. ?backing) s"
    if "\<not> path_exists (files s) (ai_vocals_path ap)"
    using that by (simp add: convert_stage_def)
  have 3: "(\<exists>m i m' i'. new_events s s' =
            [RvcInfer m i (main_vocals_dereverb_path sp) (ai_vocals_path ap) (total_pitch a)
               (f0_method a) (index_rate a) (filter_radius a) (rms_mix_rate a) (protect a)
               (crepe_hop_length a),
             RvcInfer m' i' (backup_vocals_path sp) (ai_backing_path ap) (total_pitch a)
               (f0_method a) (index_rate a) (filter_radius a) (rms_mix_rate a) (protect a)
               (crepe_hop_length a)])
       \<and> is_file (files s') (ai_vocals_path ap) \<and> is_file (files s') (ai_backing_path ap)"
    if n: "\<not> path_exists (files s) (ai_vocals_path ap)"
      and c: "convert_stage w a sp ap s = (Inr (), s')" for s'
  proof -
    from c 2 [OF n] have "bind ?lead (\<lambda>_. ?backing) s = (Inr (), s')" by simp
    then obtain x s1 where l: "?lead s = (Inr x, s1)" and b: "?backing s1 = (Inr (), s')"
      by (rule bindE)
    from voice_change_Inr [OF l] obtain m i where
      l1: "trace s1 = trace s @
            [RvcInfer m i (main_vocals_dereverb_path sp) (ai_vocals_path ap) (total_pitch a)
               (f0_method a) (index_rate a) (filter_radius a) (rms_mix_rate a) (protect a)
               (crepe_hop_length a)]"
      and l2: "files s1 = AList.update (ai_vocals_path ap)
                 (File (written w (ai_vocals_path ap))) (files s)"
      by blast
    from voice_change_Inr [OF b] obtain m' i' where
      b1: "trace s' = trace s1 @
            [RvcInfer m' i' (backup_vocals_path sp) (ai_backing_path ap) (total_pitch a)
               (f0_method a) (index_rate a) (filter_radius a) (rms_mix_rate a) (protect a)
               (crepe_hop_length a)]"
      and b2: "files s' = AList.update (ai_backing_path ap)
                 (File (written w (ai_backing_path ap))) (files s1)"
      by blast
    from l1 b1 have "new_events s s' =
            [RvcInfer m i (main_vocals_dereverb_path sp) (ai_vocals_path ap) (total_pitch a)
               (f0_method a) (index_rate a) (filter_radius a) (rms_mix_rate a) (protect a)
               (crepe_hop_length a),
             RvcInfer m' i' (backup_vocals_path sp) (ai_backing_path ap) (total_pitch a)
               (f0_method a) (index_rate a) (filter_radius a) (rms_mix_rate a) (protect a)
               (crepe_hop_length a)]"
      by (simp add: new_events_def)
    moreover from l2 b2 have "is_file (files s') (ai_vocals_path ap)"
      "is_file (files s') (ai_backing_path ap)"
      by (simp_all add: is_file_update)
    ultimately show ?thesis by blast
  qed
  have 4: "path_exists (files s) ?out \<longrightarrow> pitch_shift w p n s = (Inr ?out, s)"
    by (simp add: pitch_shift_def Let_def ret_def)
  have 5: "\<not> path_exists (files s) ?out \<longrightarrow>
      new_events s (snd (pitch_shift w p n s)) = [PitchShift p ?out n]"
    by (simp add: pitch_shift_def Let_def trace_bind_ret engine_trace new_events_def)
  have 6: "new_events s (snd (add_audio_effects w a p s))
      = [Effects p (fst (splitext p) @ ''_mixed.wav'') (reverb_rm_size a) (reverb_wet a)
           (reverb_dry a) (reverb_damping a)]"
    by (simp add: add_audio_effects_def Let_def trace_bind_ret engine_trace new_events_def)
  have 7: "new_events s (snd (combine_audio w a ps out s))
      = [Mix ps out (main_gain a) (backup_gain a) (inst_gain a) (output_format a)]"
    by (simp add: combine_audio_def engine_trace new_events_def)
  from 1 2 3 4 5 6 7 show ?thesis by blast
qed

text \<open>
  The theorem at the run directory of the example: with the lead conversion in it the
  stage does nothing; without it the stage runs and leaves the backing conversion; and
  the instrumental has no copy shifted by two semitones yet, so that a shift is run.
\<close>

theorem conversion_guarded_by_lead_only_witness:
  "path_exists (files lead_only_state) (ai_vocals_path example_artifacts)
   \<and> convert_stage example_world example_args example_paths example_artifacts lead_only_state
       = (Inr (), lead_only_state)
   \<and> \<not> path_exists (files separated_state) (ai_vocals_path example_artifacts)
   \<and> \<not> isl (fst (convert_stage example_world example_args example_paths example_artifacts
                    separated_state))
   \<and> is_file
        (files (snd (convert_stage example_world example_args example_paths example_artifacts
                       separated_state)))
        (ai_backing_path example_artifacts)
   \<and> \<not> path_exists (files separated_state)
         (fst (splitext (instrumentals_path example_paths)) @ ''_p'' @ str_int 2 @ ''.wav'')
   \<and> new_events separated_state
        (snd (pitch_shift example_world (instrumentals_path example_paths) 2 separated_state))
       = [PitchShift (instrumentals_path example_paths)
            (fst (splitext (instrumentals_path example_paths)) @ ''_p'' @ str_int 2 @ ''.wav'')
            2]"
proof -
  let ?c = "convert_stage example_world example_args example_paths example_artifacts"
  have e: "path_exists (files lead_only_state) (ai_vocals_path example_artifacts)"
    by code_simp
  have n: "\<not> path_exists (files separated_state) (ai_vocals_path example_artifacts)"
    by code_simp
  have r: "\<not> isl (fst (?c separated_state))"
    by code_simp
  then have d: "?c separated_state = (Inr (), snd (?c separated_state))"
    by (cases "?c separated_state"; cases "fst (?c separated_state)") auto
  have p: "\<not> path_exists (files separated_state)
         (fst (splitext (instrumentals_path example_paths)) @ ''_p'' @ str_int 2 @ ''.wav'')"
    by code_simp
  from conversion_guarded_by_lead_only
    [of lead_only_state example_artifacts example_world example_args example_paths] e
  have 1: "?c lead_only_state = (Inr (), lead_only_state)"
    by blast
  note t = conversion_guarded_by_lead_only
    [of separated_state example_artifacts example_world example_args example_paths
       "instrumentals_path example_paths" 2]
  from t n d have 2: "is_file (files (snd (?c separated_state)))
        (ai_backing_path example_artifacts)"
    by blast
  from t p have 3: "new_events separated_state
        (snd (pitch_shift example_world (instrumentals_path example_paths) 2 separated_state))
       = [PitchShift (instrumentals_path example_paths)
            (fst (splitext (instrumentals_path example_paths)) @ ''_p'' @ str_int 2 @ ''.wav'')
            2]"
    by blast
  from e 1 n r 2 p 3 show ?thesis by blast
qed

text \<open>
  The claim as it stood fails when the lead conversion is there and the backing one is
  not: the discovery finds the paths of the example, the lead output exists, the
  backing output does not; the run makes no conversion call, ends with an exception, and
  the backing output is still missing.
\<close>

theorem missing_backing_is_not_converted:
  "discover example_world example_args Local ''/music/song.wav'' ''a1b2c3d4e5f''
     lead_only_state = (Inr example_paths, lead_only_state)
   \<and> path_exists (files lead_only_state) (ai_vocals_path example_artifacts)
   \<and> \<not> path_exists (files lead_only_state) (ai_backing_path example_artifacts)
   \<and> isl (fst (song_cover_pipeline example_world example_args lead_only_state))
   \<and> list_all (\<lambda>e. \<not> is_conversion e)
        (trace (snd (song_cover_pipeline example_world example_args lead_only_state)))
   \<and> \<not> path_exists
         (files (snd (song_cover_pipeline example_world example_args lead_only_state)))
         (ai_backing_path example_artifacts)"
  by code_simp
end
